theory Spec2Isabelle
  imports Complex_Main "HOL-Library.AList"
begin

section \<open>JavaScript values as the handlers see them\<close>

text \<open>
  Request bodies are parsed JSON, rows are the JSON objects the store client returns.
  An object is an association list from property names to values; reading a property
  that is absent gives \<open>JUndefined\<close>, as in JavaScript.  A number is a rational (the
  number denoted by the digits JavaScript prints for it, so that \<open>0.1\<close> is one tenth;
  a rational that is no such number is the value of no request or row), or one of the
  three non-finite numbers: the text \<open>1e400\<close> of a request body is parsed to
  \<open>Infinity\<close>.  The one computation with numbers, the average progress of a profile, is
  a parameter (\<open>round_average\<close> below).
\<close>

datatype jsval =
    JUndefined
  | JNull
  | JBool bool
  | JNum rat
  | JInfinity
  | JNegInfinity
  | JNaN
  | JStr string
  | JArr "jsval list"
  | JObj "(string \<times> jsval) list"

type_synonym obj = "(string \<times> jsval) list"

definition fld :: "obj \<Rightarrow> string \<Rightarrow> jsval" where
  "fld ob k = (case map_of ob k of None \<Rightarrow> JUndefined | Some v \<Rightarrow> v)"

text \<open>
  Truthiness: \<open>undefined\<close>, \<open>null\<close>, \<open>false\<close>, \<open>0\<close>, \<open>NaN\<close> and \<open>''\<close> are falsy.
\<close>

fun truthy :: "jsval \<Rightarrow> bool" where
  "truthy JUndefined = False"
| "truthy JNull = False"
| "truthy (JBool b) = b"
| "truthy (JNum n) = (n \<noteq> 0)"
| "truthy JInfinity = True"
| "truthy JNegInfinity = True"
| "truthy JNaN = False"
| "truthy (JStr s) = (s \<noteq> [])"
| "truthy (JArr xs) = True"
| "truthy (JObj kvs) = True"

text \<open>\<open>a || b\<close> and \<open>a !== undefined ? a : b\<close>.\<close>

definition js_or :: "jsval \<Rightarrow> jsval \<Rightarrow> jsval" where
  "js_or a b = (if truthy a then a else b)"

definition if_defined :: "jsval \<Rightarrow> jsval \<Rightarrow> jsval" where
  "if_defined a b = (if a \<noteq> JUndefined then a else b)"

section \<open>What the client writes\<close>

text \<open>
  The store client sends the object of an insert or update as \<open>JSON.stringify\<close> writes
  it: a property whose value is \<open>undefined\<close> is left out, and \<open>undefined\<close> inside an
  array and every non-finite number become \<open>null\<close>.
\<close>

fun wire :: "jsval \<Rightarrow> jsval" where
  "wire JUndefined = JNull"
| "wire JInfinity = JNull"
| "wire JNegInfinity = JNull"
| "wire JNaN = JNull"
| "wire (JArr xs) = JArr (map wire xs)"
| "wire (JObj kvs) =
     JObj (map (\<lambda>p. (fst p, wire (snd p))) (filter (\<lambda>p. snd p \<noteq> JUndefined) kvs))"
| "wire v = v"

definition wire_props :: "obj \<Rightarrow> obj" where
  "wire_props ob = map (\<lambda>p. (fst p, wire (snd p))) (filter (\<lambda>p. snd p \<noteq> JUndefined) ob)"

text \<open>
  The value of a filter goes into the query as the string \<open>String(value)\<close>.  A number
  is written as JavaScript writes it: plain digits up to 21 integer digits and down to
  6 leading zeros of a fraction, with an exponent beyond.  (A rational with no finite
  decimal form is the value of no JSON text; it is written as a fraction.)
\<close>

definition digit_char :: "int \<Rightarrow> char" where
  "digit_char d = ''0123456789'' ! nat (d mod 10)"

function int_digits :: "int \<Rightarrow> string" where
  "int_digits n = (if n < 10 then [digit_char n] else int_digits (n div 10) @ [digit_char n])"
  by pat_completeness auto
termination
  by (relation "measure nat") auto

function strip_zeros :: "int \<Rightarrow> int \<times> int" where
  "strip_zeros m =
     (if m \<le> 0 \<or> m mod 10 \<noteq> 0 then (m, 0)
      else (case strip_zeros (m div 10) of (s, z) \<Rightarrow> (s, z + 1)))"
  by pat_completeness auto
termination
  by (relation "measure nat") auto

definition decimal_places :: "rat \<Rightarrow> nat option" where
  "decimal_places q =
     find (\<lambda>e. snd (quotient_of (q * 10 ^ e)) = 1)
       [0 ..< Suc (4 * length (int_digits (snd (quotient_of q))))]"

definition unsigned_text :: "rat \<Rightarrow> string" where
  "unsigned_text q =
     (case decimal_places q of
        None \<Rightarrow> int_digits (fst (quotient_of q)) @ ''/'' @ int_digits (snd (quotient_of q))
      | Some e \<Rightarrow>
          (case strip_zeros (fst (quotient_of (q * 10 ^ e))) of
             (s, z) \<Rightarrow>
               (let ds = int_digits s; k = int (length ds); n = k + z - int e
                in if k \<le> n \<and> n \<le> 21 then ds @ replicate (nat (n - k)) CHR ''0''
                   else if 0 < n \<and> n \<le> 21 then take (nat n) ds @ ''.'' @ drop (nat n) ds
                   else if - 6 < n \<and> n \<le> 0 then ''0.'' @ replicate (nat (- n)) CHR ''0'' @ ds
                   else (if k = 1 then ds else take 1 ds @ ''.'' @ drop 1 ds)
                        @ ''e'' @ (if n - 1 < 0 then ''-'' else ''+'')
                        @ int_digits \<bar>n - 1\<bar>)))"

definition number_text :: "rat \<Rightarrow> string" where
  "number_text q =
     (if q = 0 then ''0'' else (if q < 0 then ''-'' else []) @ unsigned_text \<bar>q\<bar>)"

fun join_comma :: "string list \<Rightarrow> string" where
  "join_comma [] = []"
| "join_comma [s] = s"
| "join_comma (s # t # ss) = s @ '','' @ join_comma (t # ss)"

fun js_string :: "jsval \<Rightarrow> string" where
  "js_string JUndefined = ''undefined''"
| "js_string JNull = ''null''"
| "js_string (JBool b) = (if b then ''true'' else ''false'')"
| "js_string (JNum q) = number_text q"
| "js_string JInfinity = ''Infinity''"
| "js_string JNegInfinity = ''-Infinity''"
| "js_string JNaN = ''NaN''"
| "js_string (JStr s) = s"
| "js_string (JArr xs) =
     join_comma (map (\<lambda>x. if x = JNull \<or> x = JUndefined then [] else js_string x) xs)"
| "js_string (JObj kvs) = ''[object Object]''"

section \<open>The store client\<close>

text \<open>
  The store is the hosted relational database reached through the query-builder client
  of \<open>src/supabase.js\<close>.  Its state is the three tables the handlers use.  A query
  answers with a pair \<open>(data, error)\<close>.  The model is a store that is reachable and
  accepts every write; the handlers' branches for a store error are still modelled, in
  the functions that map a reply to a response.
\<close>

record db =
  users :: "obj list"
  gardens :: "obj list"
  crops :: "obj list"

type_synonym reply = "obj option \<times> string option"

text \<open>
  \<open>.eq(col, v)\<close>.  The client writes \<open>String(v)\<close> into the query, and the store
  compares the column with that text: a text column by its characters, a number or a
  boolean by its written form.  A column that is null, absent, or holds an array or an
  object equals no text.
\<close>

fun col_text :: "jsval \<Rightarrow> string option" where
  "col_text (JStr s) = Some s"
| "col_text (JNum q) = Some (number_text q)"
| "col_text (JBool b) = Some (if b then ''true'' else ''false'')"
| "col_text v = None"

definition sql_eq :: "string \<Rightarrow> jsval \<Rightarrow> obj \<Rightarrow> bool" where
  "sql_eq col v r = (col_text (fld r col) = Some (js_string v))"

text \<open>\<open>.single()\<close>: exactly one row, or else no data and an error.\<close>

definition single :: "obj list \<Rightarrow> reply" where
  "single rs = (case rs of [r] \<Rightarrow> (Some r, None) | _ \<Rightarrow> (None, Some ''PGRST116''))"

text \<open>\<open>.select('a, b, c')\<close> keeps the listed columns of a row.\<close>

definition project :: "string list \<Rightarrow> obj \<Rightarrow> obj" where
  "project cols r = filter (\<lambda>(k, v). k \<in> set cols) r"

text \<open>
  \<open>.update(upd)\<close> sets the columns that the written object names, to the values as
  written.
\<close>

fun apply_update :: "obj \<Rightarrow> obj \<Rightarrow> obj" where
  "apply_update [] r = r"
| "apply_update ((k, v) # upd) r =
     apply_update upd (if v = JUndefined then r else AList.update k (wire v) r)"

text \<open>\<open>.insert([d]).select().single()\<close>; the store generates the id of the new row.\<close>

definition insert_row :: "jsval \<Rightarrow> obj \<Rightarrow> obj list \<Rightarrow> obj list \<times> reply" where
  "insert_row new_id d rs =
     (let r = (''id'', new_id) # wire_props d in (rs @ [r], single [r]))"

text \<open>\<open>.update(upd).eq(...).select().single()\<close>.\<close>

definition update_rows :: "(obj \<Rightarrow> bool) \<Rightarrow> obj \<Rightarrow> obj list \<Rightarrow> obj list \<times> reply" where
  "update_rows p upd rs =
     (map (\<lambda>r. if p r then apply_update upd r else r) rs,
      single (map (apply_update upd) (filter p rs)))"

text \<open>\<open>.delete().eq(...)\<close>.\<close>

definition delete_rows :: "(obj \<Rightarrow> bool) \<Rightarrow> obj list \<Rightarrow> obj list \<times> string option" where
  "delete_rows p rs = (filter (\<lambda>r. \<not> p r) rs, None)"

section \<open>Responses\<close>

datatype response = Response (status: nat) (json: obj)

text \<open>An object without the properties whose value is \<open>undefined\<close>.\<close>

definition defined_props :: "obj \<Rightarrow> obj" where
  "defined_props ob = filter (\<lambda>(k, v). v \<noteq> JUndefined) ob"

definition failure :: "nat \<Rightarrow> string \<Rightarrow> response" where
  "failure code msg = Response code [(''success'', JBool False), (''error'', JStr msg)]"

section \<open>Crop routes (src/unnamed/part_001)\<close>

text \<open>
  The routes run behind the authentication middleware, which is not among the sources;
  the identity it attaches, \<open>req.user.id\<close>, is the parameter \<open>uid\<close>.  The current time
  \<open>new Date().toISOString()\<close> is the parameter \<open>now\<close>.
\<close>

subsection \<open>POST /api/crops\<close>

definition cropData :: "obj \<Rightarrow> jsval \<Rightarrow> string \<Rightarrow> obj" where
  "cropData body uid now =
     [(''garden_id'', fld body ''garden_id''),
      (''user_id'', uid),
      (''name'', fld body ''name''),
      (''category'', js_or (fld body ''category'') (JStr ''vegetable'')),
      (''variety'', js_or (fld body ''variety'') JNull),
      (''planting_date'', js_or (fld body ''planting_date'') JNull),
      (''expected_harvest'', js_or (fld body ''expected_harvest'') JNull),
      (''status'', js_or (fld body ''status'') (JStr ''seedling'')),
      (''progress'', js_or (fld body ''progress'') (JNum 0)),
      (''notes'', js_or (fld body ''notes'') JNull),
      (''image_url'', js_or (fld body ''image_url'') JNull),
      (''is_shared'', js_or (fld body ''is_shared'') (JBool False)),
      (''quantity'', js_or (fld body ''quantity'') (JNum 1)),
      (''quantity_unit'', js_or (fld body ''quantity_unit'') JNull),
      (''created_at'', JStr now),
      (''updated_at'', JStr now)]"

definition create_crop_response :: "reply \<Rightarrow> response" where
  "create_crop_response ins =
     (case ins of
        (_, Some e) \<Rightarrow> failure 500 ''Failed to create crop''
      | (data, None) \<Rightarrow>
          Response 201 [(''success'', JBool True),
                        (''message'', JStr ''Crop created successfully''),
                        (''crop'', (case data of None \<Rightarrow> JNull | Some c \<Rightarrow> JObj c))])"

definition owned_garden :: "db \<Rightarrow> jsval \<Rightarrow> jsval \<Rightarrow> reply" where
  "owned_garden d gid uid =
     single (map (project [''id''])
       (filter (\<lambda>g. sql_eq ''id'' gid g \<and> sql_eq ''user_id'' uid g) (gardens d)))"

definition create_crop :: "db \<Rightarrow> jsval \<Rightarrow> jsval \<Rightarrow> string \<Rightarrow> obj \<Rightarrow> response \<times> db" where
  "create_crop d uid new_id now body =
     (if \<not> truthy (fld body ''name'') \<or> \<not> truthy (fld body ''garden_id'')
      then (failure 400 ''Crop name and garden ID are required'', d)
      else case owned_garden d (fld body ''garden_id'') uid of
        (_, Some e) \<Rightarrow> (failure 404 ''Garden not found or access denied'', d)
      | (None, None) \<Rightarrow> (failure 404 ''Garden not found or access denied'', d)
      | (Some g, None) \<Rightarrow>
          (let (rows, ins) = insert_row new_id (cropData body uid now) (crops d)
           in (create_crop_response ins, d\<lparr>crops := rows\<rparr>)))"

subsection \<open>GET /api/crops/:id\<close>

text \<open>
  The select embeds the name and location of the crop's garden: the store joins the
  garden whose \<open>id\<close> is the crop's \<open>garden_id\<close>, and a \<open>garden_id\<close> that is null joins
  no garden.
\<close>

definition with_garden :: "db \<Rightarrow> obj \<Rightarrow> obj" where
  "with_garden d c =
     c @ [(''gardens'',
           (case filter (\<lambda>g. fld c ''garden_id'' \<noteq> JNull \<and> fld c ''garden_id'' \<noteq> JUndefined
                              \<and> fld g ''id'' = fld c ''garden_id'') (gardens d) of
              [g] \<Rightarrow> JObj (project [''name'', ''location''] g)
            | _ \<Rightarrow> JNull))]"

definition get_crop_response :: "reply \<Rightarrow> response" where
  "get_crop_response r =
     (case r of
        (_, Some e) \<Rightarrow> failure 500 ''Failed to fetch crop''
      | (None, None) \<Rightarrow> failure 404 ''Crop not found''
      | (Some c, None) \<Rightarrow> Response 200 [(''success'', JBool True), (''crop'', JObj c)])"

definition owned_crops :: "db \<Rightarrow> string \<Rightarrow> jsval \<Rightarrow> obj list" where
  "owned_crops d cid uid =
     filter (\<lambda>c. sql_eq ''id'' (JStr cid) c \<and> sql_eq ''user_id'' uid c) (crops d)"

definition get_crop :: "db \<Rightarrow> jsval \<Rightarrow> string \<Rightarrow> response \<times> db" where
  "get_crop d uid cid =
     (get_crop_response (single (map (with_garden d) (owned_crops d cid uid))), d)"

subsection \<open>PUT /api/crops/:id\<close>

definition crop_updateData :: "obj \<Rightarrow> obj \<Rightarrow> string \<Rightarrow> obj" where
  "crop_updateData body existingCrop now =
     [(''name'', js_or (fld body ''name'') (fld existingCrop ''name'')),
      (''category'', js_or (fld body ''category'') (fld existingCrop ''category'')),
      (''variety'', if_defined (fld body ''variety'') (fld existingCrop ''variety'')),
      (''planting_date'',
         if_defined (fld body ''planting_date'') (fld existingCrop ''planting_date'')),
      (''expected_harvest'',
         if_defined (fld body ''expected_harvest'') (fld existingCrop ''expected_harvest'')),
      (''status'', js_or (fld body ''status'') (fld existingCrop ''status'')),
      (''progress'', if_defined (fld body ''progress'') (fld existingCrop ''progress'')),
      (''notes'', if_defined (fld body ''notes'') (fld existingCrop ''notes'')),
      (''image_url'', if_defined (fld body ''image_url'') (fld existingCrop ''image_url'')),
      (''is_shared'', if_defined (fld body ''is_shared'') (fld existingCrop ''is_shared'')),
      (''quantity'', if_defined (fld body ''quantity'') (fld existingCrop ''quantity'')),
      (''quantity_unit'',
         if_defined (fld body ''quantity_unit'') (fld existingCrop ''quantity_unit'')),
      (''updated_at'', JStr now)]"

definition update_crop_response :: "reply \<Rightarrow> response" where
  "update_crop_response upd =
     (case upd of
        (_, Some e) \<Rightarrow> failure 500 ''Failed to update crop''
      | (data, None) \<Rightarrow>
          Response 200 [(''success'', JBool True),
                        (''message'', JStr ''Crop updated successfully''),
                        (''crop'', (case data of None \<Rightarrow> JNull | Some c \<Rightarrow> JObj c))])"

definition update_crop :: "db \<Rightarrow> jsval \<Rightarrow> string \<Rightarrow> string \<Rightarrow> obj \<Rightarrow> response \<times> db" where
  "update_crop d uid now cid body =
     (case single (owned_crops d cid uid) of
        (_, Some e) \<Rightarrow> (failure 404 ''Crop not found or access denied'', d)
      | (None, None) \<Rightarrow> (failure 404 ''Crop not found or access denied'', d)
      | (Some existingCrop, None) \<Rightarrow>
          (let (rows, upd) =
                 update_rows (sql_eq ''id'' (JStr cid))
                   (crop_updateData body existingCrop now) (crops d)
           in (update_crop_response upd, d\<lparr>crops := rows\<rparr>)))"

subsection \<open>DELETE /api/crops/:id\<close>

definition delete_response :: "string \<Rightarrow> string \<Rightarrow> string option \<Rightarrow> response" where
  "delete_response ok_msg fail_msg err =
     (case err of
        Some e \<Rightarrow> failure 500 fail_msg
      | None \<Rightarrow> Response 200 [(''success'', JBool True), (''message'', JStr ok_msg)])"

definition delete_crop :: "db \<Rightarrow> jsval \<Rightarrow> string \<Rightarrow> response \<times> db" where
  "delete_crop d uid cid =
     (case single (map (project [''id'']) (owned_crops d cid uid)) of
        (_, Some e) \<Rightarrow> (failure 404 ''Crop not found or access denied'', d)
      | (None, None) \<Rightarrow> (failure 404 ''Crop not found or access denied'', d)
      | (Some existingCrop, None) \<Rightarrow>
          (let (rows, err) = delete_rows (sql_eq ''id'' (JStr cid)) (crops d)
           in (delete_response ''Crop deleted successfully'' ''Failed to delete crop'' err,
               d\<lparr>crops := rows\<rparr>)))"

section \<open>Garden routes (src/routes/gardens.js)\<close>

subsection \<open>GET /api/gardens/:id\<close>

definition get_garden_response :: "reply \<Rightarrow> response" where
  "get_garden_response r =
     (case r of
        (_, Some e) \<Rightarrow> failure 500 ''Failed to fetch garden''
      | (None, None) \<Rightarrow> failure 404 ''Garden not found''
      | (Some g, None) \<Rightarrow> Response 200 [(''success'', JBool True), (''garden'', JObj g)])"

definition owned_gardens :: "db \<Rightarrow> string \<Rightarrow> jsval \<Rightarrow> obj list" where
  "owned_gardens d gid uid =
     filter (\<lambda>g. sql_eq ''id'' (JStr gid) g \<and> sql_eq ''user_id'' uid g) (gardens d)"

definition get_garden :: "db \<Rightarrow> jsval \<Rightarrow> string \<Rightarrow> response \<times> db" where
  "get_garden d uid gid = (get_garden_response (single (owned_gardens d gid uid)), d)"

subsection \<open>POST /api/gardens\<close>




subsection \<open>PUT /api/gardens/:id\<close>

text \<open>
  The ownership check selects the column \<open>id\<close> only, and the row it returns is the
  \<open>existingGarden\<close> the update data is merged from.
\<close>

definition garden_updateData :: "obj \<Rightarrow> obj \<Rightarrow> string \<Rightarrow> obj" where
  "garden_updateData body existingGarden now =
     [(''name'', js_or (fld body ''name'') (fld existingGarden ''name'')),
      (''location'', if_defined (fld body ''location'') (fld existingGarden ''location'')),
      (''type'', js_or (fld body ''type'') (fld existingGarden ''type'')),
      (''size'', js_or (fld body ''size'') (fld existingGarden ''size'')),
      (''description'',
         if_defined (fld body ''description'') (fld existingGarden ''description'')),
      (''updated_at'', JStr now)]"

definition update_garden_response :: "reply \<Rightarrow> response" where
  "update_garden_response upd =
     (case upd of
        (_, Some e) \<Rightarrow> failure 500 ''Failed to update garden''
      | (data, None) \<Rightarrow>
          Response 200 [(''success'', JBool True),
                        (''message'', JStr ''Garden updated successfully''),
                        (''garden'', (case data of None \<Rightarrow> JNull | Some g \<Rightarrow> JObj g))])"

definition update_garden :: "db \<Rightarrow> jsval \<Rightarrow> string \<Rightarrow> string \<Rightarrow> obj \<Rightarrow> response \<times> db" where
  "update_garden d uid now gid body =
     (case single (map (project [''id'']) (owned_gardens d gid uid)) of
        (_, Some e) \<Rightarrow> (failure 404 ''Garden not found or access denied'', d)
      | (None, None) \<Rightarrow> (failure 404 ''Garden not found or access denied'', d)
      | (Some existingGarden, None) \<Rightarrow>
          (let (rows, upd) =
                 update_rows (sql_eq ''id'' (JStr gid))
                   (garden_updateData body existingGarden now) (gardens d)
           in (update_garden_response upd, d\<lparr>gardens := rows\<rparr>)))"

subsection \<open>DELETE /api/gardens/:id\<close>

definition delete_garden :: "db \<Rightarrow> jsval \<Rightarrow> string \<Rightarrow> response \<times> db" where
  "delete_garden d uid gid =
     (case single (map (project [''id'']) (owned_gardens d gid uid)) of
        (_, Some e) \<Rightarrow> (failure 404 ''Garden not found or access denied'', d)
      | (None, None) \<Rightarrow> (failure 404 ''Garden not found or access denied'', d)
      | (Some existingGarden, None) \<Rightarrow>
          (let (rows, err) = delete_rows (sql_eq ''id'' (JStr gid)) (gardens d)
           in (delete_response ''Garden deleted successfully'' ''Failed to delete garden'' err,
               d\<lparr>gardens := rows\<rparr>)))"

section \<open>Services the handlers call\<close>

text \<open>
  The password hashing and token packages, the ordering of the store and the rounding
  of an average are outside the sources.  They are parameters of the handlers: a call
  either throws an error or returns a value.  \<open>jwt_sign payload expiresIn\<close> stands for
  \<open>jwt.sign(payload, process.env.JWT_SECRET, {expiresIn})\<close> and \<open>jwt_verify token\<close> for
  \<open>jwt.verify(token, process.env.JWT_SECRET)\<close>, both at the time of the request.
\<close>

datatype js_error = JsError (err_name: string) (err_message: string) (err_stack: string)

record services =
  bcrypt_hash :: "jsval \<Rightarrow> js_error + string"
  bcrypt_compare :: "jsval \<Rightarrow> jsval \<Rightarrow> js_error + bool"
  jwt_sign :: "obj \<Rightarrow> string \<Rightarrow> js_error + string"
  jwt_verify :: "string \<Rightarrow> js_error + obj"
  order_desc :: "string \<Rightarrow> obj list \<Rightarrow> obj list"
  round_average :: "jsval list \<Rightarrow> jsval"
  development :: bool

section \<open>Auth routes (src/routes/auth.js)\<close>

definition plain_error :: "nat \<Rightarrow> string \<Rightarrow> response" where
  "plain_error code msg = Response code [(''error'', JStr msg)]"

text \<open>The claims of a token: \<open>{id: user.id, email: user.email, name: user.name}\<close>.\<close>

definition token_payload :: "obj \<Rightarrow> obj" where
  "token_payload user =
     [(''id'', fld user ''id''), (''email'', fld user ''email''), (''name'', fld user ''name'')]"

text \<open>\<open>const { password_hash, ...userWithoutPassword } = user\<close>.\<close>

definition userWithoutPassword :: "obj \<Rightarrow> obj" where
  "userWithoutPassword user = AList.delete ''password_hash'' user"

subsection \<open>POST /api/auth/register\<close>

definition new_user :: "obj \<Rightarrow> string \<Rightarrow> string \<Rightarrow> obj" where
  "new_user body hashedPassword now =
     [(''email'', fld body ''email''),
      (''password_hash'', JStr hashedPassword),
      (''name'', fld body ''name''),
      (''phone'', js_or (fld body ''phone'') JNull),
      (''created_at'', JStr now),
      (''updated_at'', JStr now)]"

definition issue_response :: "services \<Rightarrow> nat \<Rightarrow> string \<Rightarrow> obj \<Rightarrow> response" where
  "issue_response sv code msg user =
     (case jwt_sign sv (token_payload user) ''7d'' of
        Inl e \<Rightarrow> plain_error 500 ''Internal server error''
      | Inr token \<Rightarrow>
          Response code [(''message'', JStr msg),
                         (''user'', JObj (userWithoutPassword user)),
                         (''token'', JStr token)])"

definition register :: "services \<Rightarrow> db \<Rightarrow> jsval \<Rightarrow> string \<Rightarrow> obj \<Rightarrow> response \<times> db" where
  "register sv d new_id now body =
     (if \<not> truthy (fld body ''email'') \<or> \<not> truthy (fld body ''password'')
         \<or> \<not> truthy (fld body ''name'')
      then (plain_error 400 ''Email, password, and name are required'', d)
      else case single (filter (sql_eq ''email'' (fld body ''email'')) (users d)) of
        (Some existingUser, _) \<Rightarrow> (plain_error 400 ''User already exists'', d)
      | (None, _) \<Rightarrow>
          (case bcrypt_hash sv (fld body ''password'') of
             Inl e \<Rightarrow> (plain_error 500 ''Internal server error'', d)
           | Inr hashedPassword \<Rightarrow>
               (let (rows, ins) = insert_row new_id (new_user body hashedPassword now) (users d);
                    d' = d\<lparr>users := rows\<rparr>
                in case ins of
                     (_, Some e) \<Rightarrow> (plain_error 500 ''Error creating user'', d')
                   | (None, None) \<Rightarrow> (plain_error 500 ''Internal server error'', d')
                   | (Some user, None) \<Rightarrow>
                       (issue_response sv 201 ''User registered successfully'' user, d'))))"

subsection \<open>POST /api/auth/login\<close>

definition login :: "services \<Rightarrow> db \<Rightarrow> obj \<Rightarrow> response \<times> db" where
  "login sv d body =
     (if \<not> truthy (fld body ''email'') \<or> \<not> truthy (fld body ''password'')
      then (plain_error 400 ''Email and password are required'', d)
      else case single (filter (sql_eq ''email'' (fld body ''email'')) (users d)) of
        (_, Some e) \<Rightarrow> (plain_error 401 ''Invalid credentials'', d)
      | (None, None) \<Rightarrow> (plain_error 401 ''Invalid credentials'', d)
      | (Some user, None) \<Rightarrow>
          (case bcrypt_compare sv (fld body ''password'') (fld user ''password_hash'') of
             Inl e \<Rightarrow> (plain_error 500 ''Internal server error'', d)
           | Inr validPassword \<Rightarrow>
               if \<not> validPassword then (plain_error 401 ''Invalid credentials'', d)
               else (issue_response sv 200 ''Login successful'' user, d)))"

subsection \<open>GET /api/auth/me\<close>

text \<open>\<open>s.split(' ')\<close> and \<open>s.startsWith(p)\<close>.\<close>

fun split_on :: "char \<Rightarrow> string \<Rightarrow> string list" where
  "split_on c [] = [[]]"
| "split_on c (x # xs) =
     (if x = c then [] # split_on c xs
      else (case split_on c xs of [] \<Rightarrow> [[x]] | w # ws \<Rightarrow> (x # w) # ws))"

definition starts_with :: "string \<Rightarrow> string \<Rightarrow> bool" where
  "starts_with p s = (take (length p) s = p)"

text \<open>\<open>authHeader.split(' ')[1]\<close>, \<open>None\<close> for \<open>undefined\<close>.\<close>

definition bearer_token :: "string \<Rightarrow> string option" where
  "bearer_token authHeader =
     (case split_on CHR '' '' authHeader of a # token # rest \<Rightarrow> Some token | _ \<Rightarrow> None)"

definition me_columns :: "string list" where
  "me_columns = [''id'', ''email'', ''name'', ''phone'', ''created_at'', ''updated_at'']"

text \<open>The catch block: what a thrown error is answered with.\<close>

definition me_caught :: "services \<Rightarrow> js_error \<Rightarrow> response" where
  "me_caught sv e =
     (if err_name e = ''JsonWebTokenError''
      then Response 401 [(''success'', JBool False), (''error'', JStr ''Invalid token''),
                         (''details'', JStr (err_message e))]
      else if err_name e = ''TokenExpiredError''
      then Response 401 [(''success'', JBool False), (''error'', JStr ''Token expired''),
                         (''details'', JStr ''Please login again'')]
      else Response 500
             (defined_props
                [(''success'', JBool False), (''error'', JStr ''Internal server error''),
                 (''message'', JStr (err_message e)),
                 (''stack'', if development sv then JStr (err_stack e) else JUndefined)]))"

definition me :: "services \<Rightarrow> db \<Rightarrow> string option \<Rightarrow> response" where
  "me sv d authorization =
     (case authorization of
        None \<Rightarrow> failure 401 ''Authorization header is required''
      | Some authHeader \<Rightarrow>
          if authHeader = [] then failure 401 ''Authorization header is required''
          else if \<not> starts_with ''Bearer '' authHeader
          then failure 401 ''Invalid authorization format. Use: Bearer <token>''
          else (case bearer_token authHeader of
                  None \<Rightarrow> failure 401 ''Token is required''
                | Some token \<Rightarrow>
                    if token = [] then failure 401 ''Token is required''
                    else (case jwt_verify sv token of
                            Inl e \<Rightarrow> me_caught sv e
                          | Inr decoded \<Rightarrow>
                              (case single (map (project me_columns)
                                      (filter (sql_eq ''id'' (fld decoded ''id'')) (users d))) of
                                 (_, Some e) \<Rightarrow> failure 404 ''User not found in database''
                               | (None, None) \<Rightarrow> failure 404 ''User not found''
                               | (Some user, None) \<Rightarrow>
                                   Response 200 [(''success'', JBool True),
                                                 (''user'', JObj user)]))))"

section \<open>Profile routes (src/unnamed/part_002)\<close>

text \<open>
  These routes run behind the authentication middleware; \<open>uid\<close> is \<open>req.user.id\<close>.  The
  calls to the media store change neither the database nor a response, and are left out.
\<close>

definition profile_columns :: "string list" where
  "profile_columns =
     [''id'', ''email'', ''name'', ''phone'', ''created_at'', ''profile_image_url'', ''bio'',
      ''location'', ''garden_name'', ''garden_size'']"

definition image_columns :: "string list" where
  "image_columns = [''id'', ''email'', ''name'', ''profile_image_url'']"

definition profile_user :: "db \<Rightarrow> jsval \<Rightarrow> reply" where
  "profile_user d userId =
     single (map (project profile_columns) (filter (sql_eq ''id'' userId) (users d)))"

text \<open>The five most recent shared crops of a user.\<close>

definition sharedHistory :: "services \<Rightarrow> db \<Rightarrow> jsval \<Rightarrow> jsval" where
  "sharedHistory sv d userId =
     JArr (map (\<lambda>c. JObj (project [''id'', ''name'', ''image_url'', ''created_at''] c))
       (take 5 (order_desc sv ''created_at''
          (filter (\<lambda>c. sql_eq ''user_id'' userId c \<and> sql_eq ''is_shared'' (JBool True) c)
             (crops d)))))"

subsection \<open>GET /api/profile/:userId\<close>

definition profile_stats :: "services \<Rightarrow> obj list \<Rightarrow> jsval" where
  "profile_stats sv cs =
     JObj [(''totalCrops'', JNum (of_nat (length cs))),
           (''activeCrops'',
              JNum (of_nat (length (filter (\<lambda>crop. fld crop ''status'' \<noteq> JStr ''harvest'') cs)))),
           (''sharedCrops'',
              JNum (of_nat (length (filter (\<lambda>crop. truthy (fld crop ''is_shared'')) cs)))),
           (''avgProgress'',
              (if cs = [] then JNum 0
               else round_average sv (map (\<lambda>crop. js_or (fld crop ''progress'') (JNum 0)) cs)))]"

definition get_profile :: "services \<Rightarrow> db \<Rightarrow> string \<Rightarrow> response" where
  "get_profile sv d userId =
     (case profile_user d (JStr userId) of
        (_, Some e) \<Rightarrow> failure 404 ''User not found''
      | (None, None) \<Rightarrow> failure 404 ''User not found''
      | (Some user, None) \<Rightarrow>
          Response 200
            [(''success'', JBool True),
             (''profile'',
                JObj (AList.update ''sharingHistory'' (sharedHistory sv d (JStr userId))
                       (AList.update ''stats''
                          (profile_stats sv
                             (map (project [''id'', ''name'', ''status'', ''progress'', ''is_shared''])
                                (filter (sql_eq ''user_id'' (JStr userId)) (crops d))))
                          user)))])"

subsection \<open>GET /api/profile\<close>

text \<open>The three impact numbers are drawn with \<open>Math.random\<close>; they are parameters.\<close>

definition get_current_profile ::
  "services \<Rightarrow> db \<Rightarrow> jsval \<Rightarrow> int \<Rightarrow> int \<Rightarrow> int \<Rightarrow> response" where
  "get_current_profile sv d uid sharedKg helpedCount savedCO2 =
     (case profile_user d uid of
        (_, Some e) \<Rightarrow> failure 404 ''User not found''
      | (None, None) \<Rightarrow> failure 404 ''User not found''
      | (Some user, None) \<Rightarrow>
          Response 200
            [(''success'', JBool True),
             (''profile'',
                JObj (AList.update ''sharingHistory'' (sharedHistory sv d uid)
                       (AList.update ''activeCrops''
                          (JArr (map (\<lambda>c. JObj (project [''id'', ''name'', ''category'', ''status'',
                                                          ''progress'', ''image_url''] c))
                             (take 5 (order_desc sv ''created_at''
                                (filter (\<lambda>c. sql_eq ''user_id'' uid c \<and>
                                              fld c ''status'' \<noteq> JNull \<and>
                                              fld c ''status'' \<noteq> JUndefined \<and>
                                              fld c ''status'' \<noteq> JStr ''harvest'')
                                   (crops d))))))
                       (AList.update ''gardens''
                          (JArr (map (\<lambda>g. JObj (project [''id'', ''name'', ''type'', ''size'',
                                                          ''location''] g))
                             (order_desc sv ''created_at''
                                (filter (sql_eq ''user_id'' uid) (gardens d)))))
                       (AList.update ''impact''
                          (JObj [(''sharedKg'', JNum (of_int sharedKg)),
                                 (''helpedCount'', JNum (of_int helpedCount)),
                                 (''savedCO2'', JNum (of_int savedCO2))])
                          user)))))])"

subsection \<open>PUT /api/profile\<close>

text \<open>\<open>.update(upd).eq(...).select(cols).single()\<close>.\<close>

definition update_select ::
  "string list \<Rightarrow> (obj \<Rightarrow> bool) \<Rightarrow> obj \<Rightarrow> obj list \<Rightarrow> obj list \<times> reply" where
  "update_select cols p upd rs =
     (map (\<lambda>r. if p r then apply_update upd r else r) rs,
      single (map (\<lambda>r. project cols (apply_update upd r)) (filter p rs)))"

definition profile_updateData :: "obj \<Rightarrow> string \<Rightarrow> obj" where
  "profile_updateData body now =
     [(''updated_at'', JStr now)]
     @ (if truthy (fld body ''name'') then [(''name'', fld body ''name'')] else [])
     @ (if fld body ''bio'' \<noteq> JUndefined then [(''bio'', fld body ''bio'')] else [])
     @ (if fld body ''location'' \<noteq> JUndefined then [(''location'', fld body ''location'')]
        else [])
     @ (if fld body ''garden_name'' \<noteq> JUndefined
        then [(''garden_name'', fld body ''garden_name'')] else [])
     @ (if fld body ''garden_size'' \<noteq> JUndefined
        then [(''garden_size'', fld body ''garden_size'')] else [])"

definition update_profile :: "db \<Rightarrow> jsval \<Rightarrow> string \<Rightarrow> obj \<Rightarrow> response \<times> db" where
  "update_profile d uid now body =
     (let (rows, upd) =
            update_select profile_columns (sql_eq ''id'' uid) (profile_updateData body now)
              (users d);
          d' = d\<lparr>users := rows\<rparr>
      in case upd of
           (_, Some e) \<Rightarrow> (failure 500 ''Failed to update profile'', d')
         | (data, None) \<Rightarrow>
             (Response 200 [(''success'', JBool True),
                            (''message'', JStr ''Profile updated successfully''),
                            (''user'', (case data of None \<Rightarrow> JNull | Some u \<Rightarrow> JObj u))],
              d'))"

subsection \<open>POST /api/profile/upload-image\<close>

text \<open>\<open>file\<close> is \<open>req.file.path\<close>, the URL the media store gave the upload.\<close>

definition upload_image :: "db \<Rightarrow> jsval \<Rightarrow> string \<Rightarrow> string option \<Rightarrow> response \<times> db" where
  "upload_image d uid now file =
     (case file of
        None \<Rightarrow> (failure 400 ''No image file provided'', d)
      | Some imageUrl \<Rightarrow>
          (let (rows, upd) =
                 update_select image_columns (sql_eq ''id'' uid)
                   [(''profile_image_url'', JStr imageUrl), (''updated_at'', JStr now)] (users d);
               d' = d\<lparr>users := rows\<rparr>
           in case upd of
                (_, Some e) \<Rightarrow> (failure 500 ''Failed to update profile image'', d')
              | (data, None) \<Rightarrow>
                  (Response 200 [(''success'', JBool True),
                                 (''message'', JStr ''Profile image uploaded successfully''),
                                 (''imageUrl'', JStr imageUrl),
                                 (''user'', (case data of None \<Rightarrow> JNull | Some u \<Rightarrow> JObj u))],
                   d')))"

subsection \<open>DELETE /api/profile/image\<close>

definition delete_image :: "db \<Rightarrow> jsval \<Rightarrow> string \<Rightarrow> response \<times> db" where
  "delete_image d uid now =
     (let (rows, upd) =
            update_select image_columns (sql_eq ''id'' uid)
              [(''profile_image_url'', JNull), (''updated_at'', JStr now)] (users d);
          d' = d\<lparr>users := rows\<rparr>
      in case upd of
           (_, Some e) \<Rightarrow> (failure 500 ''Failed to remove profile image'', d')
         | (data, None) \<Rightarrow>
             (Response 200 [(''success'', JBool True),
                            (''message'', JStr ''Profile image removed successfully''),
                            (''user'', (case data of None \<Rightarrow> JNull | Some u \<Rightarrow> JObj u))],
              d'))"

section \<open>What a response exposes\<close>

text \<open>
  A response exposes the password hash of a user when its body, or an object that is a
  property of its body (the \<open>user\<close> or the \<open>profile\<close>), has the property
  \<open>password_hash\<close> of a user row.
\<close>

definition has_prop :: "obj \<Rightarrow> string \<Rightarrow> bool" where
  "has_prop ob k = (k \<in> fst ` set ob)"

definition exposes_password_hash :: "response \<Rightarrow> bool" where
  "exposes_password_hash res =
     (has_prop (json res) ''password_hash'' \<or>
      (\<exists>(k, v) \<in> set (json res).
         case v of JObj ob \<Rightarrow> has_prop ob ''password_hash'' | _ \<Rightarrow> False))"

section \<open>The token service\<close>

text \<open>
  Modelled from the spec: the token service, which is the \<open>jsonwebtoken\<close> package and
  not part of the sources.  It "signs and verifies compact signed tokens carrying
  \<open>{id, email, name}\<close> claims with a 7-day expiry, using a shared secret from process
  configuration."  A signed token holds its claims, the time it was issued at, the time
  it expires at and the secret it was signed with; times are in seconds.  The compact
  string form of a token is given by a pair of functions \<open>enc\<close> and \<open>dec\<close>.
\<close>

record signed_token =
  tok_claims :: obj
  tok_iat :: nat
  tok_exp :: nat
  tok_key :: string

definition seconds_of :: "string \<Rightarrow> nat option" where
  "seconds_of expiresIn = (if expiresIn = ''7d'' then Some (7 * 24 * 60 * 60) else None)"

definition token_sign ::
  "(signed_token \<Rightarrow> string) \<Rightarrow> string \<Rightarrow> nat \<Rightarrow> obj \<Rightarrow> string \<Rightarrow> js_error + string" where
  "token_sign enc secret now payload expiresIn =
     (case seconds_of expiresIn of
        None \<Rightarrow> Inl (JsError ''Error'' ''invalid expiresIn'' [])
      | Some lifetime \<Rightarrow>
          Inr (enc \<lparr>tok_claims = defined_props payload, tok_iat = now,
                     tok_exp = now + lifetime, tok_key = secret\<rparr>))"

definition token_verify ::
  "(string \<Rightarrow> signed_token option) \<Rightarrow> string \<Rightarrow> nat \<Rightarrow> string \<Rightarrow> js_error + obj" where
  "token_verify dec secret now token =
     (case dec token of
        None \<Rightarrow> Inl (JsError ''JsonWebTokenError'' ''jwt malformed'' [])
      | Some t \<Rightarrow>
          if tok_key t \<noteq> secret
          then Inl (JsError ''JsonWebTokenError'' ''invalid signature'' [])
          else if tok_exp t \<le> now
          then Inl (JsError ''TokenExpiredError'' ''jwt expired'' [])
          else Inr (tok_claims t @ [(''iat'', JNum (of_nat (tok_iat t))),
                                    (''exp'', JNum (of_nat (tok_exp t)))]))"

text \<open>The services of a request handled at time \<open>now\<close>.\<close>

definition with_tokens ::
  "services \<Rightarrow> (signed_token \<Rightarrow> string) \<Rightarrow> (string \<Rightarrow> signed_token option) \<Rightarrow> string \<Rightarrow> nat
     \<Rightarrow> services" where
  "with_tokens sv enc dec secret now =
     sv\<lparr>jwt_sign := token_sign enc secret now, jwt_verify := token_verify dec secret now\<rparr>"

text \<open>The token that a login of \<open>user\<close> at time \<open>t0\<close> signs.\<close>

definition login_token :: "obj \<Rightarrow> string \<Rightarrow> nat \<Rightarrow> signed_token" where
  "login_token user secret t0 =
     \<lparr>tok_claims = defined_props (token_payload user), tok_iat = t0,
      tok_exp = t0 + 7 * 24 * 60 * 60, tok_key = secret\<rparr>"

section \<open>Tables and sample data used by the statements\<close>

text \<open>The default that \<open>POST /api/crops\<close> writes for each optional property.\<close>

definition crop_defaults :: "(string \<times> jsval) list" where
  "crop_defaults =
     [(''category'', JStr ''vegetable''),
      (''variety'', JNull),
      (''planting_date'', JNull),
      (''expected_harvest'', JNull),
      (''status'', JStr ''seedling''),
      (''progress'', JNum 0),
      (''notes'', JNull),
      (''image_url'', JNull),
      (''is_shared'', JBool False),
      (''quantity'', JNum 1),
      (''quantity_unit'', JNull)]"

definition example_garden :: obj where
  "example_garden = [(''id'', JStr ''g1''), (''user_id'', JStr ''u1''), (''name'', JStr ''Plot'')]"

definition example_crop :: obj where
  "example_crop =
     [(''id'', JStr ''c1''), (''garden_id'', JStr ''g1''), (''user_id'', JStr ''u1''),
      (''name'', JStr ''Kale''), (''progress'', JNum 50), (''updated_at'', JStr ''t0'')]"

definition example_db :: db where
  "example_db = \<lparr>users = [], gardens = [example_garden], crops = [example_crop]\<rparr>"

definition falsy_crop_body :: obj where
  "falsy_crop_body =
     [(''name'', JStr ''Bean''), (''garden_id'', JStr ''g1''), (''category'', JStr ''''),
      (''status'', JStr ''''), (''progress'', JNum 0), (''is_shared'', JBool False),
      (''quantity'', JNum 0)]"

text \<open>
  The properties the update handlers merge with \<open>||\<close> and those they merge with
  \<open>!== undefined\<close>.
\<close>

definition crop_or_fields :: "string list" where
  "crop_or_fields = [''name'', ''category'', ''status'']"

definition crop_defined_fields :: "string list" where
  "crop_defined_fields =
     [''variety'', ''planting_date'', ''expected_harvest'', ''progress'', ''notes'',
      ''image_url'', ''is_shared'', ''quantity'', ''quantity_unit'']"

definition garden_or_fields :: "string list" where
  "garden_or_fields = [''name'', ''type'', ''size'']"

definition garden_defined_fields :: "string list" where
  "garden_defined_fields = [''location'', ''description'']"

text \<open>
  The merge of a request body over a stored row: a property merged with \<open>||\<close> takes
  the supplied value when it is truthy, a property merged with \<open>!== undefined\<close> takes
  it whenever it is present, and both keep the stored value otherwise.  The supplied
  value is stored as the client writes it.
\<close>

definition merge_rule :: "string list \<Rightarrow> string list \<Rightarrow> obj \<Rightarrow> obj \<Rightarrow> obj \<Rightarrow> bool" where
  "merge_rule or_fields defined_fields body before after =
     ((\<forall>k \<in> set or_fields.
         fld after k = (if truthy (fld body k) then wire (fld body k) else fld before k)) \<and>
      (\<forall>k \<in> set defined_fields.
         fld after k =
           (if fld body k \<noteq> JUndefined then wire (fld body k) else fld before k)))"

text \<open>What a column holds after \<open>v\<close> is written over \<open>old\<close>.\<close>

definition written :: "jsval \<Rightarrow> jsval \<Rightarrow> jsval" where
  "written v old = (if v = JUndefined then old else wire v)"

text \<open>
  A value that is written as it is: a JSON value, with no \<open>undefined\<close> and no non-finite
  number in it.  The rows of the store hold such values.
\<close>

definition json_value :: "jsval \<Rightarrow> bool" where
  "json_value v = (wire v = v)"

definition json_row :: "obj \<Rightarrow> bool" where
  "json_row r = (\<forall>(k, v) \<in> set r. json_value v)"

text \<open>The range the data model gives for a crop's progress: an integer from 0 to 100.\<close>

definition progress_in_range :: "jsval \<Rightarrow> bool" where
  "progress_in_range v =
     (case v of JNum n \<Rightarrow> of_int \<lfloor>n\<rfloor> = n \<and> 0 \<le> n \<and> n \<le> 100 | _ \<Rightarrow> False)"

definition zero_progress_body :: obj where
  "zero_progress_body = [(''progress'', JNum 0)]"

definition big_progress_body :: obj where
  "big_progress_body =
     [(''name'', JStr ''Bean''), (''garden_id'', JStr ''g1''), (''progress'', JNum 150)]"

text \<open>A body with the number \<open>1e400\<close>, which the parser reads as \<open>Infinity\<close>.\<close>

definition overflow_progress_body :: obj where
  "overflow_progress_body = [(''progress'', JInfinity)]"







text \<open>
  Ids that are strings: a store whose gardens have strings for \<open>id\<close> and \<open>user_id\<close>,
  and a write whose requester id, supplied garden id and generated id are strings.
\<close>

fun is_text :: "jsval \<Rightarrow> bool" where
  "is_text (JStr s) = True"
| "is_text v = False"




text \<open>
  A user, and stand-ins for the hashing and token services.  As \<open>bcryptjs\<close> does, the
  stand-ins for \<open>hash\<close> and \<open>compare\<close> throw \<open>Illegal arguments\<close> when an argument is
  not a string.
\<close>

definition example_user :: obj where
  "example_user =
     [(''id'', JStr ''u1''), (''email'', JStr ''ann''), (''password_hash'', JStr ''h:pw''),
      (''name'', JStr ''Ann''), (''phone'', JNull), (''created_at'', JStr ''t0''),
      (''updated_at'', JStr ''t0'')]"

definition auth_db :: db where
  "auth_db = \<lparr>users = [example_user], gardens = [example_garden], crops = [example_crop]\<rparr>"

definition toy_hash :: "jsval \<Rightarrow> js_error + string" where
  "toy_hash p =
     (case p of JStr s \<Rightarrow> Inr (''h:'' @ s)
      | _ \<Rightarrow> Inl (JsError ''Error'' ''Illegal arguments'' []))"

definition toy_compare :: "jsval \<Rightarrow> jsval \<Rightarrow> js_error + bool" where
  "toy_compare p h =
     (case p of
        JStr s \<Rightarrow> (case h of JStr t \<Rightarrow> Inr (t = ''h:'' @ s)
                   | _ \<Rightarrow> Inl (JsError ''Error'' ''Illegal arguments'' []))
      | _ \<Rightarrow> Inl (JsError ''Error'' ''Illegal arguments'' []))"

definition toy_verify :: "string \<Rightarrow> js_error + obj" where
  "toy_verify token =
     (if token = ''good'' then Inr [(''id'', JStr ''u1'')]
      else if token = ''gone'' then Inr [(''id'', JStr ''u9'')]
      else if token = ''old'' then Inl (JsError ''TokenExpiredError'' ''jwt expired'' [])
      else Inl (JsError ''JsonWebTokenError'' ''invalid signature'' []))"

definition toy_services :: services where
  "toy_services =
     \<lparr>bcrypt_hash = toy_hash, bcrypt_compare = toy_compare,
      jwt_sign = (\<lambda>payload expiresIn. Inr ''good''), jwt_verify = toy_verify,
      order_desc = (\<lambda>col rows. rows), round_average = (\<lambda>vs. JNum 0),
      development = False\<rparr>"

text \<open>A login of the sample user, and a stand-in for the string form of its token.\<close>

definition ann_token :: signed_token where
  "ann_token = login_token example_user ''s3'' 1000"

definition toy_enc :: "signed_token \<Rightarrow> string" where
  "toy_enc t = ''tok''"

definition toy_dec :: "string \<Rightarrow> signed_token option" where
  "toy_dec s = (if s = ''tok'' then Some ann_token else None)"

definition ann_login_body :: obj where
  "ann_login_body = [(''email'', JStr ''ann''), (''password'', JStr ''pw'')]"

text \<open>A reply whose row, if it has one, does not have the property \<open>password_hash\<close>.\<close>

definition safe_reply :: "reply \<Rightarrow> bool" where
  "safe_reply rp = (case fst rp of None \<Rightarrow> True | Some u \<Rightarrow> \<not> has_prop u ''password_hash'')"

section \<open>Reading properties of written rows\<close>

lemma fld_Cons: "fld ((k, v) # ob) k' = (if k = k' then v else fld ob k')"
  by (simp add: fld_def)

lemma fld_Nil: "fld [] k = JUndefined"
  by (simp add: fld_def)

lemma fld_absent: "k \<notin> fst ` set ob \<Longrightarrow> fld ob k = JUndefined"
  by (simp add: fld_def map_of_eq_None_iff[THEN iffD2])

lemma fld_update: "fld (AList.update k v ob) k' = (if k = k' then v else fld ob k')"
  by (simp add: fld_def update_conv')

lemma fld_defined_props: "distinct (map fst ob) \<Longrightarrow> fld (defined_props ob) k = fld ob k"
proof (induction ob)
  case Nil
  show ?case by (simp add: defined_props_def)
next
  case (Cons p ob)
  obtain k' v where p: "p = (k', v)" by (cases p)
  from Cons.prems p have notin: "k' \<notin> fst ` set ob" and d: "distinct (map fst ob)" by auto
  have ih: "fld (defined_props ob) k = fld ob k" using Cons.IH d by simp
  show ?case
  proof (cases "v = JUndefined")
    case True
    have "fld (defined_props (p # ob)) k = fld (defined_props ob) k"
      using True p by (simp add: defined_props_def)
    also have "\<dots> = fld (p # ob) k"
      using ih True p notin by (auto simp: fld_Cons fld_absent)
    finally show ?thesis .
  next
    case False
    have "defined_props (p # ob) = p # defined_props ob"
      using False p by (simp add: defined_props_def)
    then show ?thesis using ih p by (simp add: fld_Cons)
  qed
qed

lemma wire_not_undefined: "wire v \<noteq> JUndefined"
  by (cases v) simp_all

lemma wire_idem: "wire (wire v) = wire v"
  by (induction v rule: wire.induct) (auto simp: wire_not_undefined filter_map comp_def)

lemma fld_wire_props:
  "distinct (map fst ob) \<Longrightarrow> fld (wire_props ob) k = written (fld ob k) JUndefined"
proof (induction ob)
  case Nil
  show ?case by (simp add: wire_props_def written_def fld_def)
next
  case (Cons p ob)
  obtain k' v where p: "p = (k', v)" by (cases p)
  from Cons.prems p have notin: "k' \<notin> fst ` set ob" and d: "distinct (map fst ob)" by auto
  have ih: "fld (wire_props ob) k = written (fld ob k) JUndefined" using Cons.IH d by simp
  show ?case
  proof (cases "v = JUndefined")
    case True
    have "fld (wire_props (p # ob)) k = fld (wire_props ob) k"
      using True p by (simp add: wire_props_def)
    also have "\<dots> = written (fld (p # ob) k) JUndefined"
      using ih True p notin by (auto simp: fld_Cons fld_absent written_def)
    finally show ?thesis .
  next
    case False
    have "wire_props (p # ob) = (k', wire v) # wire_props ob"
      using False p by (simp add: wire_props_def)
    then show ?thesis using ih p False by (simp add: fld_Cons written_def)
  qed
qed

lemma fld_apply_update_other:
  "k \<notin> fst ` set upd \<Longrightarrow> fld (apply_update upd r) k = fld r k"
  by (induction upd r rule: apply_update.induct) (auto simp: fld_update)

lemma fld_apply_update:
  "distinct (map fst upd) \<Longrightarrow> k \<in> fst ` set upd \<Longrightarrow>
   fld (apply_update upd r) k = written (fld upd k) (fld r k)"
proof (induction upd r rule: apply_update.induct)
  case (1 r)
  then show ?case by simp
next
  case (2 k' v upd r)
  show ?case
  proof (cases "k = k'")
    case True
    with "2.prems" have "k \<notin> fst ` set upd" by auto
    then have "fld (apply_update ((k', v) # upd) r) k
        = fld (if v = JUndefined then r else AList.update k' (wire v) r) k"
      by (simp add: fld_apply_update_other)
    then show ?thesis using True by (simp add: fld_update fld_Cons written_def)
  next
    case False
    with "2.prems" have "k \<in> fst ` set upd" "distinct (map fst upd)" by auto
    with "2.IH" have
      "fld (apply_update upd (if v = JUndefined then r else AList.update k' (wire v) r)) k
        = written (fld upd k)
            (fld (if v = JUndefined then r else AList.update k' (wire v) r) k)"
      by simp
    then show ?thesis using False by (simp add: fld_update fld_Cons)
  qed
qed

lemma json_row_fld: "json_row r \<Longrightarrow> written (fld r k) (fld r k) = fld r k"
proof (cases "map_of r k")
  case None
  then show ?thesis by (simp add: fld_def written_def)
next
  case (Some v)
  assume "json_row r"
  moreover from Some have "(k, v) \<in> set r" by (rule map_of_SomeD)
  ultimately have "wire v = v" by (auto simp: json_row_def json_value_def)
  with Some show ?thesis by (simp add: fld_def written_def)
qed

text \<open>Every row that a handler writes is a row of JSON values.\<close>

lemma json_value_wire: "json_value (wire v)"
  by (simp add: json_value_def wire_idem)

lemma json_row_wire_props: "json_row (wire_props ob)"
  by (auto simp: json_row_def wire_props_def json_value_wire)

lemma set_update_subset: "set (AList.update k v r) \<subseteq> insert (k, v) (set r)"
  by (induction r) auto

lemma json_row_update:
  assumes "json_row r" and "json_value v"
  shows "json_row (AList.update k v r)"
  using assms set_update_subset [of k v r] unfolding json_row_def by blast

lemma json_row_apply_update: "json_row r \<Longrightarrow> json_row (apply_update upd r)"
  by (induction upd r rule: apply_update.induct)
    (simp_all add: json_row_update json_value_wire)

lemma json_row_inserted:
  "json_value new_id \<Longrightarrow> json_row ((''id'', new_id) # wire_props ob)"
  using json_row_wire_props [of ob] by (simp add: json_row_def)

text \<open>What a filter sends for some values, and what it matches.\<close>

lemma js_string_examples:
  "js_string (JNum 5) = ''5''"
  "js_string (JNum (- 5)) = ''-5''"
  "js_string (JNum 0) = ''0''"
  "js_string (JNum (3 / 2)) = ''1.5''"
  "js_string (JNum (1 / 1000)) = ''0.001''"
  "js_string (JNum (1 / 10000000)) = ''1e-7''"
  "js_string (JNum (10 ^ 21)) = ''1e+21''"
  "js_string (JNum (123456789 / 1000)) = ''123456.789''"
  "js_string (JArr [JStr ''g1'']) = ''g1''"
  "js_string (JArr [JNum 1, JNull, JStr ''a'']) = ''1,,a''"
  "js_string (JObj [(''a'', JNum 1)]) = ''[object Object]''"
  "js_string JInfinity = ''Infinity''"
  by code_simp+

lemma sql_eq_examples:
  "sql_eq ''id'' (JArr [JStr ''g1'']) [(''id'', JStr ''g1'')]"
  "sql_eq ''id'' (JStr ''5'') [(''id'', JNum 5)]"
  "sql_eq ''id'' (JNum 5) [(''id'', JStr ''5'')]"
  "\<not> sql_eq ''id'' (JStr ''g2'') [(''id'', JStr ''g1'')]"
  "\<not> sql_eq ''id'' JNull [(''id'', JNull)]"
  by code_simp+

section \<open>Creating a crop\<close>

lemma cropData_keys:
  "map fst (cropData body uid now) =
     [''garden_id'', ''user_id'', ''name'', ''category'', ''variety'', ''planting_date'',
      ''expected_harvest'', ''status'', ''progress'', ''notes'', ''image_url'', ''is_shared'',
      ''quantity'', ''quantity_unit'', ''created_at'', ''updated_at'']"
  by (simp add: cropData_def)

lemma distinct_cropData: "distinct (map fst (cropData body uid now))"
  by (simp add: cropData_keys)

lemma fld_inserted_crop:
  "k \<noteq> ''id'' \<Longrightarrow>
   fld ((''id'', new_id) # wire_props (cropData body uid now)) k
     = written (fld (cropData body uid now) k) JUndefined"
  by (simp add: fld_Cons fld_wire_props distinct_cropData)

lemma truthy_defined: "truthy v \<Longrightarrow> v \<noteq> JUndefined"
  by (cases v) simp_all

lemma written_js_or:
  assumes "wire dflt = dflt" and "dflt \<noteq> JUndefined"
  shows "written (js_or v dflt) old = (if truthy v then wire v else dflt)"
  using assms by (auto simp: written_def js_or_def dest: truthy_defined)

lemma crop_defaults_json:
  "(k, dflt) \<in> set crop_defaults \<Longrightarrow> wire dflt = dflt \<and> dflt \<noteq> JUndefined"
  apply (simp add: crop_defaults_def)
  apply (elim disjE conjE)
            apply simp_all
  done

lemma cropData_default:
  "(k, dflt) \<in> set crop_defaults \<Longrightarrow> fld (cropData body uid now) k = js_or (fld body k) dflt"
  apply (simp add: crop_defaults_def)
  apply (elim disjE conjE)
            apply (simp_all add: cropData_def fld_def)
  done

lemma crop_defaults_not_id: "(k, dflt) \<in> set crop_defaults \<Longrightarrow> k \<noteq> ''id''"
  apply (simp add: crop_defaults_def)
  apply (elim disjE conjE)
            apply simp_all
  done

lemma create_crop_success:
  assumes "truthy (fld body ''name'')" and "truthy (fld body ''garden_id'')"
    and "owned_garden d (fld body ''garden_id'') uid = (Some g, None)"
  shows "create_crop d uid new_id now body =
     (Response 201 [(''success'', JBool True), (''message'', JStr ''Crop created successfully''),
                    (''crop'', JObj ((''id'', new_id) # wire_props (cropData body uid now)))],
      d\<lparr>crops := crops d @ [(''id'', new_id) # wire_props (cropData body uid now)]\<rparr>)"
  using assms
  by (simp add: create_crop_def insert_row_def single_def create_crop_response_def Let_def)

text \<open>
  Claim C10.  When \<open>POST /api/crops\<close> passes its checks (a truthy name, a truthy
  garden id, a garden of that id owned by the requester), the row it inserts and the crop
  of its 201 response are the same row, and each optional property of that row holds the
  supplied value, as the client writes it, if that value is truthy and the default
  otherwise: a supplied quantity of 0 is stored as 1, a falsy progress as 0, an empty
  category as \<open>vegetable\<close>, an empty status as \<open>seedling\<close>, a falsy \<open>is_shared\<close> as
  \<open>false\<close>.
\<close>

theorem create_crop_falsy_defaults:
  assumes "truthy (fld body ''name'')" and "truthy (fld body ''garden_id'')"
    and "owned_garden d (fld body ''garden_id'') uid = (Some g, None)"
  shows "\<exists>row. create_crop d uid new_id now body =
            (Response 201 [(''success'', JBool True),
                           (''message'', JStr ''Crop created successfully''),
                           (''crop'', JObj row)],
             d\<lparr>crops := crops d @ [row]\<rparr>)
          \<and> (\<forall>(k, dflt) \<in> set crop_defaults.
                fld row k = (if truthy (fld body k) then wire (fld body k) else dflt))"
proof -
  let ?row = "(''id'', new_id) # wire_props (cropData body uid now)"
  have "\<forall>(k, dflt) \<in> set crop_defaults.
          fld ?row k = (if truthy (fld body k) then wire (fld body k) else dflt)"
  proof (clarify)
    fix k dflt assume m: "(k, dflt) \<in> set crop_defaults"
    then have "k \<noteq> ''id''" by (rule crop_defaults_not_id)
    then show "fld ?row k = (if truthy (fld body k) then wire (fld body k) else dflt)"
      using cropData_default [OF m] crop_defaults_json [OF m]
      by (simp add: fld_inserted_crop written_js_or)
  qed
  with create_crop_success [OF assms] show ?thesis by blast
qed

theorem create_crop_falsy_defaults_witness:
  "truthy (fld falsy_crop_body ''name'') \<and> truthy (fld falsy_crop_body ''garden_id'')
   \<and> owned_garden example_db (fld falsy_crop_body ''garden_id'') (JStr ''u1'')
       = (Some [(''id'', JStr ''g1'')], None)
   \<and> (\<exists>row. create_crop example_db (JStr ''u1'') (JStr ''c2'') ''t1'' falsy_crop_body =
            (Response 201 [(''success'', JBool True),
                           (''message'', JStr ''Crop created successfully''),
                           (''crop'', JObj row)],
             example_db\<lparr>crops := crops example_db @ [row]\<rparr>)
        \<and> fld row ''quantity'' = JNum 1 \<and> fld row ''progress'' = JNum 0
        \<and> fld row ''category'' = JStr ''vegetable'' \<and> fld row ''status'' = JStr ''seedling''
        \<and> fld row ''is_shared'' = JBool False)"
proof -
  have h1: "truthy (fld falsy_crop_body ''name'')"
    by (simp add: falsy_crop_body_def fld_def)
  have h2: "truthy (fld falsy_crop_body ''garden_id'')"
    by (simp add: falsy_crop_body_def fld_def)
  have h3: "owned_garden example_db (fld falsy_crop_body ''garden_id'') (JStr ''u1'')
       = (Some [(''id'', JStr ''g1'')], None)"
    by (simp add: owned_garden_def example_db_def example_garden_def falsy_crop_body_def
        fld_def sql_eq_def single_def project_def)
  from create_crop_falsy_defaults [OF h1 h2 h3, of "JStr ''c2''" "''t1''"]
  obtain row where
    r: "create_crop example_db (JStr ''u1'') (JStr ''c2'') ''t1'' falsy_crop_body =
            (Response 201 [(''success'', JBool True),
                           (''message'', JStr ''Crop created successfully''),
                           (''crop'', JObj row)],
             example_db\<lparr>crops := crops example_db @ [row]\<rparr>)"
    and f: "\<forall>(k, dflt) \<in> set crop_defaults.
                fld row k =
                  (if truthy (fld falsy_crop_body k) then wire (fld falsy_crop_body k) else dflt)"
    by blast
  have m1: "(''quantity'', JNum 1) \<in> set crop_defaults"
    and m2: "(''progress'', JNum 0) \<in> set crop_defaults"
    and m3: "(''category'', JStr ''vegetable'') \<in> set crop_defaults"
    and m4: "(''status'', JStr ''seedling'') \<in> set crop_defaults"
    and m5: "(''is_shared'', JBool False) \<in> set crop_defaults"
    by (simp_all add: crop_defaults_def)
  have q1: "fld row ''quantity'' = JNum 1"
    using bspec [OF f m1] by (simp add: falsy_crop_body_def fld_def)
  have q2: "fld row ''progress'' = JNum 0"
    using bspec [OF f m2] by (simp add: falsy_crop_body_def fld_def)
  have q3: "fld row ''category'' = JStr ''vegetable''"
    using bspec [OF f m3] by (simp add: falsy_crop_body_def fld_def)
  have q4: "fld row ''status'' = JStr ''seedling''"
    using bspec [OF f m4] by (simp add: falsy_crop_body_def fld_def)
  have q5: "fld row ''is_shared'' = JBool False"
    using bspec [OF f m5] by (simp add: falsy_crop_body_def fld_def)
  show ?thesis
    by (intro conjI exI [of _ row]) (rule h1 h2 h3 r q1 q2 q3 q4 q5)+
qed

section \<open>Updating a crop or a garden\<close>

lemma fld_apply_update_distinct:
  assumes "distinct (map fst upd)"
  shows "fld (apply_update upd r) k = written (fld upd k) (fld r k)"
proof (cases "k \<in> fst ` set upd")
  case True
  with assms show ?thesis by (rule fld_apply_update)
next
  case False
  then show ?thesis by (simp add: fld_apply_update_other fld_absent written_def)
qed

lemma written_or_stored:
  assumes "written old old = old"
  shows "written (js_or a old) old = (if truthy a then wire a else old)"
  using assms by (auto simp: written_def js_or_def dest: truthy_defined)

lemma written_defined_stored:
  assumes "written old old = old"
  shows "written (if_defined a old) old = (if a \<noteq> JUndefined then wire a else old)"
  using assms by (auto simp: written_def if_defined_def)

lemma written_or_absent:
  "written (js_or a JUndefined) old = (if truthy a then wire a else old)"
  by (auto simp: written_def js_or_def dest: truthy_defined)

lemma written_defined_absent:
  "written (if_defined a JUndefined) old = (if a \<noteq> JUndefined then wire a else old)"
  by (auto simp: written_def if_defined_def)


lemma single_singleton: "single [r] = (Some r, None)"
  by (simp add: single_def)

lemma single_cases:
  "(\<exists>r. rs = [r]) \<or> single rs = (None, Some ''PGRST116'')"
  by (cases rs) (auto simp: single_def split: list.splits)

lemma filter_singletonD:
  assumes "filter p xs = [r]" and "x \<in> set xs" and "p x"
  shows "x = r"
proof -
  from assms(2,3) have "x \<in> set (filter p xs)" by simp
  with assms(1) show ?thesis by simp
qed

lemma distinct_crop_updateData: "distinct (map fst (crop_updateData body ex now))"
  by (simp add: crop_updateData_def)

lemma fld_crop_updated:
  "fld (apply_update (crop_updateData body ex now) r) k =
     written (fld (crop_updateData body ex now) k) (fld r k)"
  by (rule fld_apply_update_distinct [OF distinct_crop_updateData])

lemma update_crop_performed:
  assumes "owned_crops d cid uid = [ex]"
  shows "update_crop d uid now cid body =
     (update_crop_response
        (single (map (apply_update (crop_updateData body ex now))
                  (filter (sql_eq ''id'' (JStr cid)) (crops d)))),
      d\<lparr>crops := map (\<lambda>r. if sql_eq ''id'' (JStr cid) r
                            then apply_update (crop_updateData body ex now) r else r)
                     (crops d)\<rparr>)"
  using assms by (simp add: update_crop_def single_def update_rows_def)

lemma update_crop_refused:
  assumes "\<forall>ex. owned_crops d cid uid \<noteq> [ex]"
  shows "update_crop d uid now cid body = (failure 404 ''Crop not found or access denied'', d)"
proof -
  from assms single_cases [of "owned_crops d cid uid"]
  have "single (owned_crops d cid uid) = (None, Some ''PGRST116'')" by blast
  then show ?thesis by (simp add: update_crop_def)
qed

lemma crop_merge_rule:
  assumes j: "json_row r"
  shows "merge_rule crop_or_fields crop_defined_fields body r
     (apply_update (crop_updateData body r now) r)"
  unfolding merge_rule_def
proof (intro conjI ballI)
  fix k assume "k \<in> set crop_or_fields"
  then have "fld (crop_updateData body r now) k = js_or (fld body k) (fld r k)"
    apply (simp add: crop_or_fields_def)
    apply (elim disjE)
      apply (simp_all add: crop_updateData_def fld_def)
    done
  then show "fld (apply_update (crop_updateData body r now) r) k =
      (if truthy (fld body k) then wire (fld body k) else fld r k)"
    by (simp add: fld_crop_updated written_or_stored [OF json_row_fld [OF j]])
next
  fix k assume "k \<in> set crop_defined_fields"
  then have "fld (crop_updateData body r now) k = if_defined (fld body k) (fld r k)"
    apply (simp add: crop_defined_fields_def)
    apply (elim disjE)
            apply (simp_all add: crop_updateData_def fld_def)
    done
  then show "fld (apply_update (crop_updateData body r now) r) k =
      (if fld body k \<noteq> JUndefined then wire (fld body k) else fld r k)"
    by (simp add: fld_crop_updated written_defined_stored [OF json_row_fld [OF j]])
qed

lemma project_restrict: "project cols r = AList.restrict (set cols) r"
  by (simp add: project_def AList.restrict_eq case_prod_unfold)

lemma fld_project: "fld (project cols r) k = (if k \<in> set cols then fld r k else JUndefined)"
  by (simp add: fld_def project_restrict restr_conv' restrict_map_def)

lemma distinct_garden_updateData: "distinct (map fst (garden_updateData body ex now))"
  by (simp add: garden_updateData_def)

lemma fld_garden_updated:
  "fld (apply_update (garden_updateData body ex now) r) k =
     written (fld (garden_updateData body ex now) k) (fld r k)"
  by (rule fld_apply_update_distinct [OF distinct_garden_updateData])

lemma update_garden_performed:
  assumes "owned_gardens d gid uid = [g]"
  shows "update_garden d uid now gid body =
     (update_garden_response
        (single (map (apply_update (garden_updateData body (project [''id''] g) now))
                  (filter (sql_eq ''id'' (JStr gid)) (gardens d)))),
      d\<lparr>gardens := map (\<lambda>r. if sql_eq ''id'' (JStr gid) r
                              then apply_update (garden_updateData body (project [''id''] g) now) r
                              else r)
                       (gardens d)\<rparr>)"
  using assms by (simp add: update_garden_def single_def update_rows_def)


lemma garden_merge_rule:
  "merge_rule garden_or_fields garden_defined_fields body r
     (apply_update (garden_updateData body (project [''id''] g) now) r)"
  unfolding merge_rule_def
proof (intro conjI ballI)
  fix k assume "k \<in> set garden_or_fields"
  then have "fld (garden_updateData body (project [''id''] g) now) k
      = js_or (fld body k) JUndefined"
    apply (simp add: garden_or_fields_def)
    apply (elim disjE)
      apply (simp_all add: garden_updateData_def fld_Cons fld_project)
    done
  then show "fld (apply_update (garden_updateData body (project [''id''] g) now) r) k =
      (if truthy (fld body k) then wire (fld body k) else fld r k)"
    by (simp add: fld_garden_updated written_or_absent)
next
  fix k assume "k \<in> set garden_defined_fields"
  then have "fld (garden_updateData body (project [''id''] g) now) k
      = if_defined (fld body k) JUndefined"
    apply (simp add: garden_defined_fields_def)
    apply (elim disjE)
     apply (simp_all add: garden_updateData_def fld_Cons fld_project)
    done
  then show "fld (apply_update (garden_updateData body (project [''id''] g) now) r) k =
      (if fld body k \<noteq> JUndefined then wire (fld body k) else fld r k)"
    by (simp add: fld_garden_updated written_defined_absent)
qed

lemma owned_crops_member:
  assumes "owned_crops d cid uid = [r]"
  shows "r \<in> set (crops d) \<and> sql_eq ''id'' (JStr cid) r \<and> sql_eq ''user_id'' uid r"
proof -
  have "r \<in> set (owned_crops d cid uid)" using assms by simp
  then show ?thesis by (simp add: owned_crops_def)
qed

lemma owned_gardens_member:
  assumes "owned_gardens d gid uid = [g]"
  shows "g \<in> set (gardens d) \<and> sql_eq ''id'' (JStr gid) g \<and> sql_eq ''user_id'' uid g"
proof -
  have "g \<in> set (owned_gardens d gid uid)" using assms by simp
  then show ?thesis by (simp add: owned_gardens_def)
qed

text \<open>
  Claim C3, as amended.  When the ownership check of an update finds the row (a row of
  JSON values, for a crop), the row as stored afterwards follows the merge: \<open>name\<close>,
  \<open>category\<close> and \<open>status\<close> of a crop (\<open>name\<close>, \<open>type\<close> and \<open>size\<close> of a garden) take
  the supplied value when it is truthy and keep the stored value otherwise; every other
  updatable property takes the supplied value whenever the request has the property, a
  falsy value included, and keeps the stored value only when the request does not have
  it.  The supplied value is stored as the client writes it: a number that the parser
  read as \<open>Infinity\<close>, such as \<open>1e400\<close>, is stored as \<open>null\<close>.
\<close>

theorem update_merge_rule:
  "(owned_crops d cid uid = [r] \<and> json_row r \<longrightarrow>
      length (crops (snd (update_crop d uid now cid body))) = length (crops d) \<and>
      (\<forall>i < length (crops d). crops d ! i = r \<longrightarrow>
         merge_rule crop_or_fields crop_defined_fields body r
           (crops (snd (update_crop d uid now cid body)) ! i))) \<and>
   (owned_gardens d gid uid = [g] \<longrightarrow>
      length (gardens (snd (update_garden d uid now gid body))) = length (gardens d) \<and>
      (\<forall>i < length (gardens d). gardens d ! i = g \<longrightarrow>
         merge_rule garden_or_fields garden_defined_fields body g
           (gardens (snd (update_garden d uid now gid body)) ! i)))"
proof (intro conjI impI allI)
  assume "owned_crops d cid uid = [r] \<and> json_row r"
  then have o: "owned_crops d cid uid = [r]" ..
  show "length (crops (snd (update_crop d uid now cid body))) = length (crops d)"
    by (simp add: update_crop_performed [OF o])
next
  fix i
  assume oj: "owned_crops d cid uid = [r] \<and> json_row r"
    and i: "i < length (crops d)" and r: "crops d ! i = r"
  from oj have o: "owned_crops d cid uid = [r]" and j: "json_row r" by simp_all
  from owned_crops_member [OF o] have "sql_eq ''id'' (JStr cid) r" by simp
  with i r have "crops (snd (update_crop d uid now cid body)) ! i
      = apply_update (crop_updateData body r now) r"
    by (simp add: update_crop_performed [OF o])
  then show "merge_rule crop_or_fields crop_defined_fields body r
           (crops (snd (update_crop d uid now cid body)) ! i)"
    by (simp add: crop_merge_rule [OF j])
next
  assume o: "owned_gardens d gid uid = [g]"
  show "length (gardens (snd (update_garden d uid now gid body))) = length (gardens d)"
    by (simp add: update_garden_performed [OF o])
next
  fix i
  assume o: "owned_gardens d gid uid = [g]" and i: "i < length (gardens d)"
    and g: "gardens d ! i = g"
  from owned_gardens_member [OF o] have "sql_eq ''id'' (JStr gid) g" by simp
  with i g have "gardens (snd (update_garden d uid now gid body)) ! i
      = apply_update (garden_updateData body (project [''id''] g) now) g"
    by (simp add: update_garden_performed [OF o])
  then show "merge_rule garden_or_fields garden_defined_fields body g
           (gardens (snd (update_garden d uid now gid body)) ! i)"
    by (simp add: garden_merge_rule)
qed

lemma example_owned_crops: "owned_crops example_db ''c1'' (JStr ''u1'') = [example_crop]"
  by (simp add: owned_crops_def example_db_def example_crop_def sql_eq_def fld_def)

lemma json_example_crop: "json_row example_crop"
  by (simp add: json_row_def json_value_def example_crop_def)

lemma example_owned_gardens: "owned_gardens example_db ''g1'' (JStr ''u1'') = [example_garden]"
  by (simp add: owned_gardens_def example_db_def example_garden_def sql_eq_def fld_def)

lemma example_update_zero_progress:
  "crops (snd (update_crop example_db (JStr ''u1'') ''t1'' ''c1'' zero_progress_body)) =
     [[(''id'', JStr ''c1''), (''garden_id'', JStr ''g1''), (''user_id'', JStr ''u1''),
       (''name'', JStr ''Kale''), (''progress'', JNum 0), (''updated_at'', JStr ''t1'')]]"
  apply (simp add: update_crop_performed [OF example_owned_crops])
  apply (simp add: example_db_def)
  apply (simp add: example_crop_def sql_eq_def fld_def crop_updateData_def zero_progress_body_def
      if_defined_def js_or_def)
  done

lemma example_update_overflow_progress:
  "crops (snd (update_crop example_db (JStr ''u1'') ''t1'' ''c1'' overflow_progress_body)) =
     [[(''id'', JStr ''c1''), (''garden_id'', JStr ''g1''), (''user_id'', JStr ''u1''),
       (''name'', JStr ''Kale''), (''progress'', JNull), (''updated_at'', JStr ''t1'')]]"
  apply (simp add: update_crop_performed [OF example_owned_crops])
  apply (simp add: example_db_def)
  apply (simp add: example_crop_def sql_eq_def fld_def crop_updateData_def
      overflow_progress_body_def if_defined_def js_or_def)
  done

text \<open>
  As stated, claim C3 fails: a supplied progress of 0 is falsy, and it replaces the
  stored progress 50 instead of falling back to it.
\<close>

theorem update_falsy_counterexample:
  "\<not> truthy (fld zero_progress_body ''progress'') \<and>
   fld (crops example_db ! 0) ''progress'' = JNum 50 \<and>
   fld (crops (snd (update_crop example_db (JStr ''u1'') ''t1'' ''c1'' zero_progress_body)) ! 0)
     ''progress'' = JNum 0"
  by (simp add: example_update_zero_progress)
    (simp add: zero_progress_body_def example_db_def example_crop_def fld_def)

theorem update_merge_rule_witness:
  "owned_crops example_db ''c1'' (JStr ''u1'') = [example_crop] \<and>
   json_row example_crop \<and>
   crops example_db ! 0 = example_crop \<and>
   merge_rule crop_or_fields crop_defined_fields zero_progress_body example_crop
     (crops (snd (update_crop example_db (JStr ''u1'') ''t1'' ''c1'' zero_progress_body)) ! 0) \<and>
   owned_gardens example_db ''g1'' (JStr ''u1'') = [example_garden] \<and>
   gardens example_db ! 0 = example_garden \<and>
   merge_rule garden_or_fields garden_defined_fields zero_progress_body example_garden
     (gardens (snd (update_garden example_db (JStr ''u1'') ''t1'' ''g1'' zero_progress_body)) ! 0)"
proof -
  have c0: "crops example_db ! 0 = example_crop" and lc: "0 < length (crops example_db)"
    and g0: "gardens example_db ! 0 = example_garden" and lg: "0 < length (gardens example_db)"
    by (simp_all add: example_db_def)
  note m = update_merge_rule [of example_db "''c1''" "JStr ''u1''" example_crop "''t1''"
      zero_progress_body "''g1''" example_garden]
  from m example_owned_crops json_example_crop lc c0
  have a: "merge_rule crop_or_fields crop_defined_fields zero_progress_body example_crop
     (crops (snd (update_crop example_db (JStr ''u1'') ''t1'' ''c1'' zero_progress_body)) ! 0)"
    by blast
  from m example_owned_gardens lg g0
  have b: "merge_rule garden_or_fields garden_defined_fields zero_progress_body example_garden
     (gardens (snd (update_garden example_db (JStr ''u1'') ''t1'' ''g1'' zero_progress_body)) ! 0)"
    by blast
  show ?thesis
    by (intro conjI) (rule example_owned_crops json_example_crop c0 a example_owned_gardens g0 b)+
qed

lemma crop_updateData_keys:
  "fst ` set (crop_updateData body ex now) =
     set crop_or_fields \<union> set crop_defined_fields \<union> {''updated_at''}"
  by (simp add: crop_updateData_def crop_or_fields_def crop_defined_fields_def insert_commute)

lemma crop_update_frame:
  assumes "json_row r" and "fld body k = JUndefined" and "k \<noteq> ''updated_at''"
  shows "fld (apply_update (crop_updateData body r now) r) k = fld r k"
proof -
  note mr = crop_merge_rule [OF assms(1), of body now, unfolded merge_rule_def]
  consider (a) "k \<in> set crop_or_fields" | (b) "k \<in> set crop_defined_fields"
    | (c) "k \<notin> fst ` set (crop_updateData body r now)"
    using assms(3) by (auto simp: crop_updateData_keys)
  then show ?thesis
  proof cases
    case a
    with mr assms(2) show ?thesis by simp
  next
    case b
    with mr assms(2) show ?thesis by simp
  next
    case c
    then show ?thesis by (rule fld_apply_update_other)
  qed
qed

lemma crop_update_stamp:
  "fld (apply_update (crop_updateData body ex now) r) ''updated_at'' = JStr now"
  by (simp add: fld_crop_updated) (simp add: crop_updateData_def fld_def written_def)

text \<open>
  Claim C4, as amended.  Whatever \<open>PUT /api/crops/:id\<close> answers, every crop row of the
  requester (a row of JSON values) keeps the value of each property the request does not
  supply, other than \<open>updated_at\<close>; and \<open>updated_at\<close> of such a row is the time of the
  update if the row is the one the ownership check finds, and keeps its value otherwise.
\<close>

theorem partial_update_frame:
  assumes "update_crop d uid now cid body = (res, d')"
    and "i < length (crops d)" and "sql_eq ''user_id'' uid (crops d ! i)"
    and "json_row (crops d ! i)"
  shows "length (crops d') = length (crops d) \<and>
     (\<forall>k. fld body k = JUndefined \<and> k \<noteq> ''updated_at'' \<longrightarrow>
            fld (crops d' ! i) k = fld (crops d ! i) k) \<and>
     fld (crops d' ! i) ''updated_at'' =
       (if owned_crops d cid uid = [crops d ! i] then JStr now
        else fld (crops d ! i) ''updated_at'')"
proof (cases "\<exists>ex. owned_crops d cid uid = [ex]")
  case False
  then have "update_crop d uid now cid body =
      (failure 404 ''Crop not found or access denied'', d)"
    by (simp add: update_crop_refused)
  with assms(1) have "d' = d" by simp
  with False show ?thesis by simp
next
  case True
  then obtain ex where o: "owned_crops d cid uid = [ex]" ..
  from update_crop_performed [OF o, of now body] assms(1)
  have d': "crops d' = map (\<lambda>r. if sql_eq ''id'' (JStr cid) r
                            then apply_update (crop_updateData body ex now) r else r) (crops d)"
    by auto
  show ?thesis
  proof (cases "sql_eq ''id'' (JStr cid) (crops d ! i)")
    case False
    from owned_crops_member [OF o] have "sql_eq ''id'' (JStr cid) ex" by simp
    with False have "crops d ! i \<noteq> ex" by auto
    with False d' assms(2) o show ?thesis by simp
  next
    case True
    have "crops d ! i \<in> set (crops d)" using assms(2) by simp
    with True assms(3) o have e: "crops d ! i = ex"
      unfolding owned_crops_def
      by (intro filter_singletonD [where x = "crops d ! i" and xs = "crops d"
            and p = "\<lambda>c. sql_eq ''id'' (JStr cid) c \<and> sql_eq ''user_id'' uid c"]) simp_all
    with assms(4) have j: "json_row ex" by simp
    from e d' assms(2) True
    have n: "crops d' ! i = apply_update (crop_updateData body ex now) ex" by simp
    have l: "length (crops d') = length (crops d)" using d' by simp
    have f: "\<forall>k. fld body k = JUndefined \<and> k \<noteq> ''updated_at'' \<longrightarrow>
            fld (crops d' ! i) k = fld (crops d ! i) k"
      using n e by (simp add: crop_update_frame [OF j])
    have u: "fld (crops d' ! i) ''updated_at'' =
       (if owned_crops d cid uid = [crops d ! i] then JStr now
        else fld (crops d ! i) ''updated_at'')"
      using n e o by (simp add: crop_update_stamp)
    from l f u show ?thesis by (intro conjI)
  qed
qed

theorem partial_update_frame_witness:
  "sql_eq ''user_id'' (JStr ''u1'') (crops example_db ! 0) \<and>
   json_row (crops example_db ! 0) \<and>
   fld zero_progress_body ''name'' = JUndefined \<and>
   owned_crops example_db ''c1'' (JStr ''u1'') = [crops example_db ! 0] \<and>
   fld (crops (snd (update_crop example_db (JStr ''u1'') ''t1'' ''c1'' zero_progress_body)) ! 0)
     ''name'' = JStr ''Kale'' \<and>
   fld (crops (snd (update_crop example_db (JStr ''u1'') ''t1'' ''c1'' zero_progress_body)) ! 0)
     ''updated_at'' = JStr ''t1'' \<and>
   fld (crops (snd (update_crop example_db (JStr ''u1'') ''t1'' ''c1'' zero_progress_body)) ! 0)
     ''progress'' = JNum 0"
proof -
  let ?d' = "snd (update_crop example_db (JStr ''u1'') ''t1'' ''c1'' zero_progress_body)"
  have c0: "crops example_db ! 0 = example_crop" by (simp add: example_db_def)
  have h2: "0 < length (crops example_db)" by (simp add: example_db_def)
  have h3: "sql_eq ''user_id'' (JStr ''u1'') (crops example_db ! 0)"
    by (simp add: example_db_def example_crop_def sql_eq_def fld_def)
  have h4: "json_row (crops example_db ! 0)" using json_example_crop c0 by simp
  have h5: "fld zero_progress_body ''name'' = JUndefined"
    by (simp add: zero_progress_body_def fld_def)
  have h6: "owned_crops example_db ''c1'' (JStr ''u1'') = [crops example_db ! 0]"
    using example_owned_crops c0 by simp
  note t = partial_update_frame [OF prod.collapse [symmetric] h2 h3 h4,
      of "''t1''" "''c1''" zero_progress_body]
  from t have "fld zero_progress_body ''name'' = JUndefined \<and> ''name'' \<noteq> ''updated_at'' \<longrightarrow>
      fld (crops ?d' ! 0) ''name'' = fld (crops example_db ! 0) ''name''"
    by (elim conjE) (rule spec)
  with h5 have "fld (crops ?d' ! 0) ''name'' = fld (crops example_db ! 0) ''name''" by simp
  also have "\<dots> = JStr ''Kale''" by (simp add: example_db_def example_crop_def fld_def)
  finally have a: "fld (crops ?d' ! 0) ''name'' = JStr ''Kale''" .
  from t h6 have u: "fld (crops ?d' ! 0) ''updated_at'' = JStr ''t1''" by simp
  have b: "fld (crops ?d' ! 0) ''progress'' = JNum 0"
    by (simp add: example_update_zero_progress fld_def)
  show ?thesis by (intro conjI) (rule h3 h4 h5 h6 a u b)+
qed

text \<open>
  As stated, claim C4 fails on \<open>updated_at\<close>: the request does not supply it and the
  handler sets it to the time of the update.
\<close>

theorem partial_update_counterexample:
  "fld zero_progress_body ''updated_at'' = JUndefined \<and>
   fld (crops example_db ! 0) ''updated_at'' = JStr ''t0'' \<and>
   fld (crops (snd (update_crop example_db (JStr ''u1'') ''t1'' ''c1'' zero_progress_body)) ! 0)
     ''updated_at'' = JStr ''t1''"
  by (simp add: example_update_zero_progress)
    (simp add: zero_progress_body_def example_db_def example_crop_def fld_def)

section \<open>The progress of a crop\<close>

lemma example_owned_garden:
  "owned_garden example_db (JStr ''g1'') (JStr ''u1'') = (Some [(''id'', JStr ''g1'')], None)"
  by (simp add: owned_garden_def example_db_def example_garden_def fld_def sql_eq_def
      single_def project_def)

text \<open>
  Claim C9, as amended.  \<open>POST /api/crops\<close> stores the supplied progress when it is
  truthy and 0 otherwise; \<open>PUT /api/crops/:id\<close>, on a row of JSON values, stores the
  supplied progress whenever the request has one and keeps the stored progress
  otherwise.  The supplied progress is stored as the client writes it, which is the
  value itself except that a number the parser read as \<open>Infinity\<close>, such as \<open>1e400\<close>,
  is stored as \<open>null\<close>.  Neither handler checks that the value is an integer from 0 to
  100.
\<close>

theorem crop_progress_written:
  "(truthy (fld body ''name'') \<and> truthy (fld body ''garden_id'') \<and>
    owned_garden d (fld body ''garden_id'') uid = (Some g, None) \<longrightarrow>
      (\<exists>row. snd (create_crop d uid new_id now body) = d\<lparr>crops := crops d @ [row]\<rparr> \<and>
         fld row ''progress'' =
           (if truthy (fld body ''progress'') then wire (fld body ''progress'') else JNum 0))) \<and>
   (owned_crops d cid uid = [r] \<and> json_row r \<longrightarrow>
      (\<forall>i < length (crops d). crops d ! i = r \<longrightarrow>
         fld (crops (snd (update_crop d uid now cid body)) ! i) ''progress'' =
           (if fld body ''progress'' \<noteq> JUndefined then wire (fld body ''progress'')
            else fld r ''progress'')))"
proof (intro conjI impI allI)
  assume a: "truthy (fld body ''name'') \<and> truthy (fld body ''garden_id'') \<and>
    owned_garden d (fld body ''garden_id'') uid = (Some g, None)"
  let ?row = "(''id'', new_id) # wire_props (cropData body uid now)"
  have m: "(''progress'', JNum 0) \<in> set crop_defaults" by (simp add: crop_defaults_def)
  have "fld ?row ''progress'' = written (js_or (fld body ''progress'') (JNum 0)) JUndefined"
    using cropData_default [OF m] by (simp add: fld_inserted_crop)
  then have "fld ?row ''progress'' =
      (if truthy (fld body ''progress'') then wire (fld body ''progress'') else JNum 0)"
    by (simp add: written_js_or)
  moreover have "snd (create_crop d uid new_id now body) = d\<lparr>crops := crops d @ [?row]\<rparr>"
    using a by (simp add: create_crop_success)
  ultimately show "\<exists>row. snd (create_crop d uid new_id now body) = d\<lparr>crops := crops d @ [row]\<rparr> \<and>
         fld row ''progress'' =
           (if truthy (fld body ''progress'') then wire (fld body ''progress'') else JNum 0)"
    by (intro exI [of _ ?row] conjI)
next
  fix i
  assume oj: "owned_crops d cid uid = [r] \<and> json_row r"
    and i: "i < length (crops d)" and r: "crops d ! i = r"
  from oj have o: "owned_crops d cid uid = [r]" and j: "json_row r" by simp_all
  from owned_crops_member [OF o] have "sql_eq ''id'' (JStr cid) r" by simp
  with i r have "crops (snd (update_crop d uid now cid body)) ! i
      = apply_update (crop_updateData body r now) r"
    by (simp add: update_crop_performed [OF o])
  moreover have "''progress'' \<in> set crop_defined_fields" by (simp add: crop_defined_fields_def)
  ultimately show "fld (crops (snd (update_crop d uid now cid body)) ! i) ''progress'' =
           (if fld body ''progress'' \<noteq> JUndefined then wire (fld body ''progress'')
            else fld r ''progress'')"
    using crop_merge_rule [OF j, of body now, unfolded merge_rule_def] by simp
qed

lemma example_create_big_progress:
  "crops (snd (create_crop example_db (JStr ''u1'') (JStr ''c2'') ''t1'' big_progress_body)) =
     [example_crop,
      [(''id'', JStr ''c2''), (''garden_id'', JStr ''g1''), (''user_id'', JStr ''u1''),
       (''name'', JStr ''Bean''), (''category'', JStr ''vegetable''), (''variety'', JNull),
       (''planting_date'', JNull), (''expected_harvest'', JNull), (''status'', JStr ''seedling''),
       (''progress'', JNum 150), (''notes'', JNull), (''image_url'', JNull),
       (''is_shared'', JBool False), (''quantity'', JNum 1), (''quantity_unit'', JNull),
       (''created_at'', JStr ''t1''), (''updated_at'', JStr ''t1'')]]"
proof -
  have g: "fld big_progress_body ''garden_id'' = JStr ''g1''"
    and n: "truthy (fld big_progress_body ''name'')"
    by (simp_all add: big_progress_body_def fld_def)
  have "snd (create_crop example_db (JStr ''u1'') (JStr ''c2'') ''t1'' big_progress_body) =
      example_db\<lparr>crops := crops example_db @
        [(''id'', JStr ''c2'') # wire_props (cropData big_progress_body (JStr ''u1'') ''t1'')]\<rparr>"
    using n g example_owned_garden by (simp add: create_crop_success)
  moreover have "wire_props (cropData big_progress_body (JStr ''u1'') ''t1'') =
      [(''garden_id'', JStr ''g1''), (''user_id'', JStr ''u1''),
       (''name'', JStr ''Bean''), (''category'', JStr ''vegetable''), (''variety'', JNull),
       (''planting_date'', JNull), (''expected_harvest'', JNull), (''status'', JStr ''seedling''),
       (''progress'', JNum 150), (''notes'', JNull), (''image_url'', JNull),
       (''is_shared'', JBool False), (''quantity'', JNum 1), (''quantity_unit'', JNull),
       (''created_at'', JStr ''t1''), (''updated_at'', JStr ''t1'')]"
    by (simp add: cropData_def big_progress_body_def fld_def js_or_def wire_props_def)
  ultimately show ?thesis by (simp add: example_db_def)
qed

text \<open>
  As stated, claim C9 fails: a crop created with progress 150 is stored, and returned,
  with progress 150.
\<close>

theorem crop_progress_range_counterexample:
  "fld big_progress_body ''progress'' = JNum 150 \<and>
   fst (create_crop example_db (JStr ''u1'') (JStr ''c2'') ''t1'' big_progress_body)
     = create_crop_response
         (Some (last (crops (snd (create_crop example_db (JStr ''u1'') (JStr ''c2'') ''t1''
            big_progress_body)))), None) \<and>
   \<not> progress_in_range
       (fld (last (crops (snd (create_crop example_db (JStr ''u1'') (JStr ''c2'') ''t1''
          big_progress_body)))) ''progress'')"
proof -
  have g: "fld big_progress_body ''garden_id'' = JStr ''g1''"
    and n: "truthy (fld big_progress_body ''name'')"
    and p: "fld big_progress_body ''progress'' = JNum 150"
    by (simp_all add: big_progress_body_def fld_def)
  have c: "create_crop example_db (JStr ''u1'') (JStr ''c2'') ''t1'' big_progress_body =
     (Response 201 [(''success'', JBool True), (''message'', JStr ''Crop created successfully''),
        (''crop'', JObj ((''id'', JStr ''c2'') #
            wire_props (cropData big_progress_body (JStr ''u1'') ''t1'')))],
      example_db\<lparr>crops := crops example_db @
        [(''id'', JStr ''c2'') # wire_props (cropData big_progress_body (JStr ''u1'') ''t1'')]\<rparr>)"
    using n g example_owned_garden by (simp add: create_crop_success)
  have a: "fst (create_crop example_db (JStr ''u1'') (JStr ''c2'') ''t1'' big_progress_body)
     = create_crop_response
         (Some (last (crops (snd (create_crop example_db (JStr ''u1'') (JStr ''c2'') ''t1''
            big_progress_body)))), None)"
    by (simp add: c create_crop_response_def)
  have b: "\<not> progress_in_range
       (fld (last (crops (snd (create_crop example_db (JStr ''u1'') (JStr ''c2'') ''t1''
          big_progress_body)))) ''progress'')"
    by (simp add: example_create_big_progress fld_def progress_in_range_def)
  show ?thesis by (intro conjI) (rule p a b)+
qed

theorem crop_progress_written_witness:
  "truthy (fld big_progress_body ''name'') \<and> truthy (fld big_progress_body ''garden_id'') \<and>
   owned_garden example_db (fld big_progress_body ''garden_id'') (JStr ''u1'')
     = (Some [(''id'', JStr ''g1'')], None) \<and>
   (\<exists>row. snd (create_crop example_db (JStr ''u1'') (JStr ''c2'') ''t1'' big_progress_body)
       = example_db\<lparr>crops := crops example_db @ [row]\<rparr> \<and> fld row ''progress'' = JNum 150) \<and>
   owned_crops example_db ''c1'' (JStr ''u1'') = [example_crop] \<and>
   json_row example_crop \<and>
   crops example_db ! 0 = example_crop \<and>
   fld (crops (snd (update_crop example_db (JStr ''u1'') ''t1'' ''c1'' zero_progress_body)) ! 0)
     ''progress'' = JNum 0 \<and>
   fld (crops (snd (update_crop example_db (JStr ''u1'') ''t1'' ''c1'' overflow_progress_body))
     ! 0) ''progress'' = JNull"
proof -
  have g: "fld big_progress_body ''garden_id'' = JStr ''g1''"
    and n: "truthy (fld big_progress_body ''name'')"
    and n': "truthy (fld big_progress_body ''garden_id'')"
    and p: "fld big_progress_body ''progress'' = JNum 150"
    and z: "fld zero_progress_body ''progress'' = JNum 0"
    and v: "fld overflow_progress_body ''progress'' = JInfinity"
    by (simp_all add: big_progress_body_def zero_progress_body_def overflow_progress_body_def
        fld_def)
  have og: "owned_garden example_db (fld big_progress_body ''garden_id'') (JStr ''u1'')
     = (Some [(''id'', JStr ''g1'')], None)"
    using example_owned_garden by (simp add: g)
  have c0: "crops example_db ! 0 = example_crop" and lc: "0 < length (crops example_db)"
    by (simp_all add: example_db_def)
  note t = crop_progress_written [of big_progress_body example_db "JStr ''u1''"
      "[(''id'', JStr ''g1'')]" "JStr ''c2''" "''t1''"]
  from t [THEN conjunct1] n n' og
  have a: "\<exists>row. snd (create_crop example_db (JStr ''u1'') (JStr ''c2'') ''t1'' big_progress_body)
       = example_db\<lparr>crops := crops example_db @ [row]\<rparr> \<and> fld row ''progress'' = JNum 150"
    by (simp add: p)
  note u = crop_progress_written [of zero_progress_body example_db "JStr ''u1''"
      "[(''id'', JStr ''g1'')]" "JStr ''c2''" "''t1''" "''c1''" example_crop]
  from u [THEN conjunct2] example_owned_crops json_example_crop lc c0
  have b: "fld (crops (snd (update_crop example_db (JStr ''u1'') ''t1'' ''c1'' zero_progress_body))
      ! 0) ''progress'' = JNum 0"
    by (simp add: z)
  note w = crop_progress_written [of overflow_progress_body example_db "JStr ''u1''"
      "[(''id'', JStr ''g1'')]" "JStr ''c2''" "''t1''" "''c1''" example_crop]
  from w [THEN conjunct2] example_owned_crops json_example_crop lc c0
  have c: "fld (crops (snd (update_crop example_db (JStr ''u1'') ''t1'' ''c1''
      overflow_progress_body)) ! 0) ''progress'' = JNull"
    by (simp add: v)
  show ?thesis
    by (intro conjI) (rule n n' og a example_owned_crops json_example_crop c0 b c)+
qed

section \<open>A crop's garden belongs to the crop's user\<close>








lemma is_text_wire: "is_text v \<Longrightarrow> wire v = v"
  by (cases v) simp_all




















section \<open>Rows of another user\<close>

lemma foreign_garden_responses:
  assumes "owned_gardens d gid uid = []"
  shows "get_garden d uid gid = (failure 500 ''Failed to fetch garden'', d)"
    and "update_garden d uid now gid body =
           (failure 404 ''Garden not found or access denied'', d)"
    and "delete_garden d uid gid = (failure 404 ''Garden not found or access denied'', d)"
  using assms
  by (simp_all add: get_garden_def get_garden_response_def update_garden_def delete_garden_def
      single_def)

lemma foreign_crop_responses:
  assumes "owned_crops d cid uid = []"
  shows "get_crop d uid cid = (failure 500 ''Failed to fetch crop'', d)"
    and "update_crop d uid now cid body =
           (failure 404 ''Crop not found or access denied'', d)"
    and "delete_crop d uid cid = (failure 404 ''Crop not found or access denied'', d)"
  using assms
  by (simp_all add: get_crop_def get_crop_response_def update_crop_def delete_crop_def
      single_def)

text \<open>
  Claim C2 at a garden and a crop of user \<open>u1\<close>, requested by user \<open>u2\<close>: the two
  fetches answer 500, where the claim says 404.  The query finds no row, \<open>.single()\<close>
  reports that as an error, and the fetch handlers throw on an error before they reach
  their own 404 branch.  The update and delete handlers test the error and the missing
  row together and answer 404 (\<open>foreign_garden_responses\<close>, \<open>foreign_crop_responses\<close>);
  none of the handlers changes the store.
\<close>

theorem get_foreign_row_is_500:
  "fld example_garden ''id'' = JStr ''g1'' \<and> fld example_garden ''user_id'' = JStr ''u1'' \<and>
   fld example_crop ''id'' = JStr ''c1'' \<and> fld example_crop ''user_id'' = JStr ''u1'' \<and>
   get_garden example_db (JStr ''u2'') ''g1'' =
     (failure 500 ''Failed to fetch garden'', example_db) \<and>
   get_crop example_db (JStr ''u2'') ''c1'' =
     (failure 500 ''Failed to fetch crop'', example_db)"
proof -
  have g: "owned_gardens example_db ''g1'' (JStr ''u2'') = []"
    by (simp add: owned_gardens_def example_db_def example_garden_def sql_eq_def fld_def)
  have c: "owned_crops example_db ''c1'' (JStr ''u2'') = []"
    by (simp add: owned_crops_def example_db_def example_crop_def sql_eq_def fld_def)
  show ?thesis
    by (simp add: foreign_garden_responses(1) [OF g] foreign_crop_responses(1) [OF c])
      (simp add: example_garden_def example_crop_def fld_def)
qed

section \<open>Logging in\<close>

lemma login_unknown_email:
  assumes "truthy (fld body ''email'')" and "truthy (fld body ''password'')"
    and "filter (sql_eq ''email'' (fld body ''email'')) (users d) = []"
  shows "login sv d body = (plain_error 401 ''Invalid credentials'', d)"
  using assms by (simp add: login_def single_def)

lemma login_wrong_password:
  assumes "truthy (fld body ''email'')" and "truthy (fld body ''password'')"
    and "filter (sql_eq ''email'' (fld body ''email'')) (users d) = [user]"
    and "bcrypt_compare sv (fld body ''password'') (fld user ''password_hash'') = Inr False"
  shows "login sv d body = (plain_error 401 ''Invalid credentials'', d)"
  using assms by (simp add: login_def single_def)

lemma login_compare_throws:
  assumes "truthy (fld body ''email'')" and "truthy (fld body ''password'')"
    and "filter (sql_eq ''email'' (fld body ''email'')) (users d) = [user]"
    and "bcrypt_compare sv (fld body ''password'') (fld user ''password_hash'') = Inl e"
  shows "login sv d body = (plain_error 500 ''Internal server error'', d)"
  using assms by (simp add: login_def single_def)

text \<open>
  Claim C7 holds when the comparison of the password with the stored hash returns
  \<open>false\<close> (\<open>login_unknown_email\<close>, \<open>login_wrong_password\<close>), and fails when the
  comparison throws (\<open>login_compare_throws\<close>).  The handler tests the password for
  truthiness only, so a password that is the number \<open>1\<close> reaches \<open>bcrypt.compare\<close>, which
  throws on an argument that is not a string.  With that password, a login that names
  the stored email \<open>ann\<close> is answered 500 \<open>Internal server error\<close>, and a login that
  names the unknown email \<open>bob\<close> is answered 401 \<open>Invalid credentials\<close>: the two
  responses tell a stored email from an unknown one.
\<close>

theorem login_reveals_stored_email:
  "filter (sql_eq ''email'' (JStr ''ann'')) (users auth_db) = [example_user] \<and>
   filter (sql_eq ''email'' (JStr ''bob'')) (users auth_db) = [] \<and>
   truthy (JNum 1) \<and>
   bcrypt_compare toy_services (JNum 1) (fld example_user ''password_hash'')
     = Inl (JsError ''Error'' ''Illegal arguments'' []) \<and>
   login toy_services auth_db [(''email'', JStr ''ann''), (''password'', JNum 1)]
     = (plain_error 500 ''Internal server error'', auth_db) \<and>
   login toy_services auth_db [(''email'', JStr ''bob''), (''password'', JNum 1)]
     = (plain_error 401 ''Invalid credentials'', auth_db) \<and>
   fst (login toy_services auth_db [(''email'', JStr ''ann''), (''password'', JNum 1)])
     \<noteq> fst (login toy_services auth_db [(''email'', JStr ''bob''), (''password'', JNum 1)])"
proof -
  let ?b1 = "[(''email'', JStr ''ann''), (''password'', JNum 1)]"
  let ?b2 = "[(''email'', JStr ''bob''), (''password'', JNum 1)]"
  have e1: "fld ?b1 ''email'' = JStr ''ann''" and p1: "fld ?b1 ''password'' = JNum 1"
    and e2: "fld ?b2 ''email'' = JStr ''bob''" and p2: "fld ?b2 ''password'' = JNum 1"
    by (simp_all add: fld_def)
  have f1: "filter (sql_eq ''email'' (JStr ''ann'')) (users auth_db) = [example_user]"
    by (simp add: auth_db_def example_user_def sql_eq_def fld_def)
  have f2: "filter (sql_eq ''email'' (JStr ''bob'')) (users auth_db) = []"
    by (simp add: auth_db_def example_user_def sql_eq_def fld_def)
  have t: "truthy (JNum 1)" by simp
  have c: "bcrypt_compare toy_services (JNum 1) (fld example_user ''password_hash'')
      = Inl (JsError ''Error'' ''Illegal arguments'' [])"
    by (simp add: toy_services_def toy_compare_def)
  have r1: "login toy_services auth_db ?b1 = (plain_error 500 ''Internal server error'', auth_db)"
    by (rule login_compare_throws [where user = example_user])
      (simp_all only: e1 p1 f1 c, simp_all)
  have r2: "login toy_services auth_db ?b2 = (plain_error 401 ''Invalid credentials'', auth_db)"
    by (rule login_unknown_email) (simp_all only: e2 p2 f2, simp_all)
  have ne: "fst (login toy_services auth_db ?b1) \<noteq> fst (login toy_services auth_db ?b2)"
    unfolding r1 r2 by (simp add: plain_error_def)
  show ?thesis by (intro conjI) (rule f1 f2 t c r1 r2 ne)+
qed

theorem login_reveals_stored_email_witness:
  "status (fst (login toy_services auth_db [(''email'', JStr ''ann''), (''password'', JNum 1)]))
     = 500 \<and>
   status (fst (login toy_services auth_db [(''email'', JStr ''bob''), (''password'', JNum 1)]))
     = 401 \<and>
   snd (login toy_services auth_db [(''email'', JStr ''ann''), (''password'', JNum 1)])
     = auth_db"
  using login_reveals_stored_email by (simp add: plain_error_def)

section \<open>The current user\<close>

lemma split_on_after_Bearer:
  "split_on CHR '' '' (''Bearer '' @ s) = ''Bearer'' # split_on CHR '' '' s"
  by simp

lemma starts_with_BearerD:
  assumes "starts_with ''Bearer '' h"
  shows "\<exists>s. h = ''Bearer '' @ s"
proof -
  from assms have t: "take (length ''Bearer '') h = ''Bearer ''"
    by (simp only: starts_with_def)
  have "h = take (length ''Bearer '') h @ drop (length ''Bearer '') h"
    by (simp only: append_take_drop_id)
  then have "h = ''Bearer '' @ drop (length ''Bearer '') h"
    by (simp only: t)
  then show ?thesis ..
qed

lemma split_on_Cons: "\<exists>w ws. split_on c s = w # ws"
  by (induction s) (auto split: list.splits)

lemma bearer_token_present:
  assumes "starts_with ''Bearer '' h"
  shows "\<exists>token. bearer_token h = Some token"
proof -
  from starts_with_BearerD [OF assms] obtain s where h: "h = ''Bearer '' @ s" ..
  obtain w ws where "split_on CHR '' '' s = w # ws"
    using split_on_Cons by blast
  then show ?thesis unfolding h bearer_token_def split_on_after_Bearer by simp
qed

lemma starts_with_nonempty: "starts_with ''Bearer '' h \<Longrightarrow> h \<noteq> []"
  by (auto simp: starts_with_def)

lemma me_with_token:
  assumes "starts_with ''Bearer '' h" and "bearer_token h = Some tok" and "tok \<noteq> []"
  shows "me sv d (Some h) =
     (case jwt_verify sv tok of
        Inl e \<Rightarrow> me_caught sv e
      | Inr decoded \<Rightarrow>
          (case single (map (project me_columns)
                  (filter (sql_eq ''id'' (fld decoded ''id'')) (users d))) of
             (_, Some e) \<Rightarrow> failure 404 ''User not found in database''
           | (None, None) \<Rightarrow> failure 404 ''User not found''
           | (Some user, None) \<Rightarrow>
               Response 200 [(''success'', JBool True), (''user'', JObj user)]))"
  using assms starts_with_nonempty [OF assms(1)] by (simp add: me_def)

text \<open>
  Claim C5.  \<open>GET /api/auth/me\<close> answers 401 to a request without an Authorization
  header, to a header that does not start with \<open>Bearer \<close>, to a header with an empty
  token after the scheme, to a token whose verification throws a \<open>JsonWebTokenError\<close>
  and to one whose verification throws a \<open>TokenExpiredError\<close>; the five bodies are
  pairwise different.  A token that verifies and whose id is the id of no user row is
  answered 404.
\<close>

theorem me_rejections:
  "me sv d None = failure 401 ''Authorization header is required'' \<and>
   (h \<noteq> [] \<and> \<not> starts_with ''Bearer '' h \<longrightarrow>
      me sv d (Some h) = failure 401 ''Invalid authorization format. Use: Bearer <token>'') \<and>
   (starts_with ''Bearer '' h \<and> bearer_token h = Some [] \<longrightarrow>
      me sv d (Some h) = failure 401 ''Token is required'') \<and>
   (starts_with ''Bearer '' h \<and> bearer_token h = Some tok \<and> tok \<noteq> [] \<longrightarrow>
      (jwt_verify sv tok = Inl e \<and> err_name e = ''JsonWebTokenError'' \<longrightarrow>
         me sv d (Some h) =
           Response 401 [(''success'', JBool False), (''error'', JStr ''Invalid token''),
                         (''details'', JStr (err_message e))]) \<and>
      (jwt_verify sv tok = Inl e \<and> err_name e = ''TokenExpiredError'' \<longrightarrow>
         me sv d (Some h) =
           Response 401 [(''success'', JBool False), (''error'', JStr ''Token expired''),
                         (''details'', JStr ''Please login again'')]) \<and>
      (jwt_verify sv tok = Inr decoded \<and>
       filter (sql_eq ''id'' (fld decoded ''id'')) (users d) = [] \<longrightarrow>
         me sv d (Some h) = failure 404 ''User not found in database'')) \<and>
   distinct
     [failure 401 ''Authorization header is required'',
      failure 401 ''Invalid authorization format. Use: Bearer <token>'',
      failure 401 ''Token is required'',
      Response 401 [(''success'', JBool False), (''error'', JStr ''Invalid token''),
                    (''details'', JStr m)],
      Response 401 [(''success'', JBool False), (''error'', JStr ''Token expired''),
                    (''details'', JStr ''Please login again'')]]"
proof (intro conjI impI)
  show "me sv d None = failure 401 ''Authorization header is required''"
    by (simp add: me_def)
next
  assume "h \<noteq> [] \<and> \<not> starts_with ''Bearer '' h"
  then show "me sv d (Some h) =
      failure 401 ''Invalid authorization format. Use: Bearer <token>''"
    by (simp add: me_def)
next
  assume a: "starts_with ''Bearer '' h \<and> bearer_token h = Some []"
  then have "h \<noteq> []" by (simp add: starts_with_nonempty)
  with a show "me sv d (Some h) = failure 401 ''Token is required''"
    by (simp add: me_def)
next
  assume a: "starts_with ''Bearer '' h \<and> bearer_token h = Some tok \<and> tok \<noteq> []"
    and b: "jwt_verify sv tok = Inl e \<and> err_name e = ''JsonWebTokenError''"
  from a have "me sv d (Some h) = (case jwt_verify sv tok of
        Inl e \<Rightarrow> me_caught sv e
      | Inr decoded \<Rightarrow>
          (case single (map (project me_columns)
                  (filter (sql_eq ''id'' (fld decoded ''id'')) (users d))) of
             (_, Some e) \<Rightarrow> failure 404 ''User not found in database''
           | (None, None) \<Rightarrow> failure 404 ''User not found''
           | (Some user, None) \<Rightarrow>
               Response 200 [(''success'', JBool True), (''user'', JObj user)]))"
    by (intro me_with_token) simp_all
  with b show "me sv d (Some h) =
           Response 401 [(''success'', JBool False), (''error'', JStr ''Invalid token''),
                         (''details'', JStr (err_message e))]"
    by (simp add: me_caught_def)
next
  assume a: "starts_with ''Bearer '' h \<and> bearer_token h = Some tok \<and> tok \<noteq> []"
    and b: "jwt_verify sv tok = Inl e \<and> err_name e = ''TokenExpiredError''"
  from a have "me sv d (Some h) = (case jwt_verify sv tok of
        Inl e \<Rightarrow> me_caught sv e
      | Inr decoded \<Rightarrow>
          (case single (map (project me_columns)
                  (filter (sql_eq ''id'' (fld decoded ''id'')) (users d))) of
             (_, Some e) \<Rightarrow> failure 404 ''User not found in database''
           | (None, None) \<Rightarrow> failure 404 ''User not found''
           | (Some user, None) \<Rightarrow>
               Response 200 [(''success'', JBool True), (''user'', JObj user)]))"
    by (intro me_with_token) simp_all
  with b show "me sv d (Some h) =
           Response 401 [(''success'', JBool False), (''error'', JStr ''Token expired''),
                         (''details'', JStr ''Please login again'')]"
    by (simp add: me_caught_def)
next
  assume a: "starts_with ''Bearer '' h \<and> bearer_token h = Some tok \<and> tok \<noteq> []"
    and b: "jwt_verify sv tok = Inr decoded \<and>
       filter (sql_eq ''id'' (fld decoded ''id'')) (users d) = []"
  from a have "me sv d (Some h) = (case jwt_verify sv tok of
        Inl e \<Rightarrow> me_caught sv e
      | Inr decoded \<Rightarrow>
          (case single (map (project me_columns)
                  (filter (sql_eq ''id'' (fld decoded ''id'')) (users d))) of
             (_, Some e) \<Rightarrow> failure 404 ''User not found in database''
           | (None, None) \<Rightarrow> failure 404 ''User not found''
           | (Some user, None) \<Rightarrow>
               Response 200 [(''success'', JBool True), (''user'', JObj user)]))"
    by (intro me_with_token) simp_all
  with b show "me sv d (Some h) = failure 404 ''User not found in database''"
    by (simp add: single_def)
next
  show "distinct
     [failure 401 ''Authorization header is required'',
      failure 401 ''Invalid authorization format. Use: Bearer <token>'',
      failure 401 ''Token is required'',
      Response 401 [(''success'', JBool False), (''error'', JStr ''Invalid token''),
                    (''details'', JStr m)],
      Response 401 [(''success'', JBool False), (''error'', JStr ''Token expired''),
                    (''details'', JStr ''Please login again'')]]"
    by (simp add: failure_def)
qed

theorem me_rejections_witness:
  "me toy_services auth_db None = failure 401 ''Authorization header is required'' \<and>
   me toy_services auth_db (Some ''Basic abc'') =
     failure 401 ''Invalid authorization format. Use: Bearer <token>'' \<and>
   me toy_services auth_db (Some ''Bearer '') = failure 401 ''Token is required'' \<and>
   me toy_services auth_db (Some ''Bearer bad'') =
     Response 401 [(''success'', JBool False), (''error'', JStr ''Invalid token''),
                   (''details'', JStr ''invalid signature'')] \<and>
   me toy_services auth_db (Some ''Bearer old'') =
     Response 401 [(''success'', JBool False), (''error'', JStr ''Token expired''),
                   (''details'', JStr ''Please login again'')] \<and>
   me toy_services auth_db (Some ''Bearer gone'') = failure 404 ''User not found in database''"
proof -
  let ?bad = "JsError ''JsonWebTokenError'' ''invalid signature'' []"
  let ?old = "JsError ''TokenExpiredError'' ''jwt expired'' []"
  have v: "jwt_verify toy_services ''bad'' = Inl ?bad" "jwt_verify toy_services ''old'' = Inl ?old"
    "jwt_verify toy_services ''gone'' = Inr [(''id'', JStr ''u9'')]"
    by (simp_all add: toy_services_def toy_verify_def)
  have none: "filter (sql_eq ''id'' (fld [(''id'', JStr ''u9'')] ''id'')) (users auth_db) = []"
    by (simp add: auth_db_def example_user_def sql_eq_def fld_def)
  have s: "\<not> starts_with ''Bearer '' ''Basic abc''" "starts_with ''Bearer '' ''Bearer ''"
    "starts_with ''Bearer '' ''Bearer bad''" "starts_with ''Bearer '' ''Bearer old''"
    "starts_with ''Bearer '' ''Bearer gone''"
    by (simp_all add: starts_with_def)
  have b: "bearer_token ''Bearer '' = Some []" "bearer_token ''Bearer bad'' = Some ''bad''"
    "bearer_token ''Bearer old'' = Some ''old''" "bearer_token ''Bearer gone'' = Some ''gone''"
    by (simp_all add: bearer_token_def)
  have c1: "me toy_services auth_db None = failure 401 ''Authorization header is required''"
    using me_rejections [of toy_services auth_db] by blast
  have c2: "me toy_services auth_db (Some ''Basic abc'') =
     failure 401 ''Invalid authorization format. Use: Bearer <token>''"
    using me_rejections [of toy_services auth_db "''Basic abc''"] s(1) by simp
  have c3: "me toy_services auth_db (Some ''Bearer '') = failure 401 ''Token is required''"
    using me_rejections [of toy_services auth_db "''Bearer ''"] s(2) b(1) by simp
  have c4: "me toy_services auth_db (Some ''Bearer bad'') =
     Response 401 [(''success'', JBool False), (''error'', JStr ''Invalid token''),
                   (''details'', JStr ''invalid signature'')]"
    using me_rejections [of toy_services auth_db "''Bearer bad''" "''bad''" ?bad] s(3) b(2) v(1)
    by simp
  have c5: "me toy_services auth_db (Some ''Bearer old'') =
     Response 401 [(''success'', JBool False), (''error'', JStr ''Token expired''),
                   (''details'', JStr ''Please login again'')]"
    using me_rejections [of toy_services auth_db "''Bearer old''" "''old''" ?old] s(4) b(3) v(2)
    by simp
  have c6: "me toy_services auth_db (Some ''Bearer gone'') =
      failure 404 ''User not found in database''"
    using me_rejections [of toy_services auth_db "''Bearer gone''" "''gone''" _
        "[(''id'', JStr ''u9'')]"] s(5) b(4) v(3) none
    by simp
  show ?thesis by (intro conjI) (rule c1 c2 c3 c4 c5 c6)+
qed

section \<open>Tokens issued at login\<close>

lemma split_on_no_sep: "c \<notin> set s \<Longrightarrow> split_on c s = [s]"
  by (induction s) auto

lemma bearer_token_of_header:
  "CHR '' '' \<notin> set tok \<Longrightarrow> bearer_token (''Bearer '' @ tok) = Some tok"
  unfolding bearer_token_def split_on_after_Bearer by (simp add: split_on_no_sep)

lemma starts_with_header: "starts_with ''Bearer '' (''Bearer '' @ tok)"
  by (simp add: starts_with_def)

lemma fld_append_left: "k \<notin> fst ` set ys \<Longrightarrow> fld (xs @ ys) k = fld xs k"
  by (simp add: fld_def map_add_def map_of_eq_None_iff [THEN iffD2] split: option.split)

lemma fld_token_claims:
  "k \<noteq> ''iat'' \<Longrightarrow> k \<noteq> ''exp'' \<Longrightarrow>
   fld (defined_props (token_payload user) @ [(''iat'', a), (''exp'', b)]) k
     = fld (token_payload user) k"
  by (simp add: fld_append_left fld_defined_props token_payload_def)

lemma login_success:
  assumes "truthy (fld body ''email'')" and "truthy (fld body ''password'')"
    and "filter (sql_eq ''email'' (fld body ''email'')) (users d) = [user]"
    and "bcrypt_compare sv (fld body ''password'') (fld user ''password_hash'') = Inr True"
  shows "login sv d body = (issue_response sv 200 ''Login successful'' user, d)"
  using assms by (simp add: login_def single_def)

text \<open>
  Claim C6.  A login that succeeds at time \<open>t0\<close> answers with the token signed for the
  user's id, email and name.  Verified less than 7 days later, that token decodes to the
  same id, email and name; verified 7 days after \<open>t0\<close> or later, verification throws
  \<open>TokenExpiredError\<close> and \<open>GET /api/auth/me\<close> answers 401 \<open>Token expired\<close>.  The string
  form of the token is assumed to decode to the token, to be non-empty and to hold no
  space.
\<close>

theorem login_token_roundtrip:
  assumes "truthy (fld body ''email'')" and "truthy (fld body ''password'')"
    and "filter (sql_eq ''email'' (fld body ''email'')) (users d) = [user]"
    and "bcrypt_compare sv (fld body ''password'') (fld user ''password_hash'') = Inr True"
    and "dec (enc (login_token user secret t0)) = Some (login_token user secret t0)"
    and "enc (login_token user secret t0) \<noteq> []"
    and "CHR '' '' \<notin> set (enc (login_token user secret t0))"
  shows "login (with_tokens sv enc dec secret t0) d body =
           (Response 200 [(''message'', JStr ''Login successful''),
                          (''user'', JObj (userWithoutPassword user)),
                          (''token'', JStr (enc (login_token user secret t0)))], d) \<and>
         (t < t0 + 7 * 24 * 60 * 60 \<longrightarrow>
            (\<exists>decoded. jwt_verify (with_tokens sv enc dec secret t)
                          (enc (login_token user secret t0)) = Inr decoded \<and>
               fld decoded ''id'' = fld user ''id'' \<and>
               fld decoded ''email'' = fld user ''email'' \<and>
               fld decoded ''name'' = fld user ''name'')) \<and>
         (t0 + 7 * 24 * 60 * 60 \<le> t \<longrightarrow>
            jwt_verify (with_tokens sv enc dec secret t) (enc (login_token user secret t0))
              = Inl (JsError ''TokenExpiredError'' ''jwt expired'' []) \<and>
            me (with_tokens sv enc dec secret t) d'
                 (Some (''Bearer '' @ enc (login_token user secret t0))) =
              Response 401 [(''success'', JBool False), (''error'', JStr ''Token expired''),
                            (''details'', JStr ''Please login again'')])"
proof (intro conjI impI)
  have c: "bcrypt_compare (with_tokens sv enc dec secret t0) = bcrypt_compare sv"
    by (simp add: with_tokens_def)
  have "jwt_sign (with_tokens sv enc dec secret t0) (token_payload user) ''7d''
      = Inr (enc (login_token user secret t0))"
    by (simp add: with_tokens_def token_sign_def seconds_of_def login_token_def)
  then have "issue_response (with_tokens sv enc dec secret t0) 200 ''Login successful'' user
      = Response 200 [(''message'', JStr ''Login successful''),
                      (''user'', JObj (userWithoutPassword user)),
                      (''token'', JStr (enc (login_token user secret t0)))]"
    by (simp add: issue_response_def)
  then show "login (with_tokens sv enc dec secret t0) d body =
           (Response 200 [(''message'', JStr ''Login successful''),
                          (''user'', JObj (userWithoutPassword user)),
                          (''token'', JStr (enc (login_token user secret t0)))], d)"
    using login_success [of body d user "with_tokens sv enc dec secret t0"] assms(1-4) c
    by simp
next
  assume t: "t < t0 + 7 * 24 * 60 * 60"
  let ?decoded = "tok_claims (login_token user secret t0) @
      [(''iat'', JNum (of_nat (tok_iat (login_token user secret t0)))),
       (''exp'', JNum (of_nat (tok_exp (login_token user secret t0))))]"
  have v: "jwt_verify (with_tokens sv enc dec secret t) (enc (login_token user secret t0))
      = Inr ?decoded"
    using t assms(5) by (simp add: with_tokens_def token_verify_def) (simp add: login_token_def)
  have "fld ?decoded ''id'' = fld user ''id''" "fld ?decoded ''email'' = fld user ''email''"
    "fld ?decoded ''name'' = fld user ''name''"
    by (simp_all add: login_token_def fld_token_claims) (simp_all add: token_payload_def fld_def)
  with v show "\<exists>decoded. jwt_verify (with_tokens sv enc dec secret t)
                          (enc (login_token user secret t0)) = Inr decoded \<and>
               fld decoded ''id'' = fld user ''id'' \<and>
               fld decoded ''email'' = fld user ''email'' \<and>
               fld decoded ''name'' = fld user ''name''"
    by blast
next
  assume t: "t0 + 7 * 24 * 60 * 60 \<le> t"
  then show v: "jwt_verify (with_tokens sv enc dec secret t) (enc (login_token user secret t0))
      = Inl (JsError ''TokenExpiredError'' ''jwt expired'' [])"
    using assms(5) by (simp add: with_tokens_def token_verify_def) (simp add: login_token_def)
  have "me (with_tokens sv enc dec secret t) d'
      (Some (''Bearer '' @ enc (login_token user secret t0))) =
      me_caught (with_tokens sv enc dec secret t)
        (JsError ''TokenExpiredError'' ''jwt expired'' [])"
    using me_with_token [OF starts_with_header bearer_token_of_header [OF assms(7)] assms(6),
        of "with_tokens sv enc dec secret t" d'] v
    by simp
  then show "me (with_tokens sv enc dec secret t) d'
                 (Some (''Bearer '' @ enc (login_token user secret t0))) =
              Response 401 [(''success'', JBool False), (''error'', JStr ''Token expired''),
                            (''details'', JStr ''Please login again'')]"
    by (simp add: me_caught_def)
qed

theorem login_token_roundtrip_witness:
  "truthy (fld ann_login_body ''email'') \<and> truthy (fld ann_login_body ''password'') \<and>
   filter (sql_eq ''email'' (fld ann_login_body ''email'')) (users auth_db) = [example_user] \<and>
   bcrypt_compare toy_services (fld ann_login_body ''password'')
     (fld example_user ''password_hash'') = Inr True \<and>
   toy_dec (toy_enc (login_token example_user ''s3'' 1000))
     = Some (login_token example_user ''s3'' 1000) \<and>
   login (with_tokens toy_services toy_enc toy_dec ''s3'' 1000) auth_db ann_login_body =
     (Response 200 [(''message'', JStr ''Login successful''),
                    (''user'', JObj (userWithoutPassword example_user)),
                    (''token'', JStr ''tok'')], auth_db) \<and>
   (\<exists>decoded. jwt_verify (with_tokens toy_services toy_enc toy_dec ''s3'' 2000) ''tok''
        = Inr decoded \<and>
      fld decoded ''id'' = JStr ''u1'' \<and> fld decoded ''email'' = JStr ''ann'' \<and>
      fld decoded ''name'' = JStr ''Ann'') \<and>
   me (with_tokens toy_services toy_enc toy_dec ''s3'' 605800) auth_db (Some ''Bearer tok'') =
     Response 401 [(''success'', JBool False), (''error'', JStr ''Token expired''),
                   (''details'', JStr ''Please login again'')]"
proof -
  have h1: "truthy (fld ann_login_body ''email'')"
    and h2: "truthy (fld ann_login_body ''password'')"
    by (simp_all add: ann_login_body_def fld_def)
  have h3: "filter (sql_eq ''email'' (fld ann_login_body ''email'')) (users auth_db)
      = [example_user]"
    by (simp add: ann_login_body_def auth_db_def example_user_def sql_eq_def fld_def)
  have h4: "bcrypt_compare toy_services (fld ann_login_body ''password'')
     (fld example_user ''password_hash'') = Inr True"
    by (simp add: toy_services_def toy_compare_def ann_login_body_def example_user_def fld_def)
  have e: "toy_enc (login_token example_user ''s3'' 1000) = ''tok''"
    by (simp add: toy_enc_def)
  have h5: "toy_dec (toy_enc (login_token example_user ''s3'' 1000))
     = Some (login_token example_user ''s3'' 1000)"
    by (simp add: toy_enc_def toy_dec_def ann_token_def)
  have h6: "toy_enc (login_token example_user ''s3'' 1000) \<noteq> []"
    and h7: "CHR '' '' \<notin> set (toy_enc (login_token example_user ''s3'' 1000))"
    by (simp_all add: toy_enc_def)
  have u: "fld example_user ''id'' = JStr ''u1''" "fld example_user ''email'' = JStr ''ann''"
    "fld example_user ''name'' = JStr ''Ann''"
    by (simp_all add: example_user_def fld_def)
  note r = login_token_roundtrip [where enc = toy_enc and dec = toy_dec and secret = "''s3''"
      and ?t0.0 = 1000 and user = example_user and sv = toy_services and d = auth_db
      and body = ann_login_body, OF h1 h2 h3 h4 h5 h6 h7]
  have a: "login (with_tokens toy_services toy_enc toy_dec ''s3'' 1000) auth_db ann_login_body =
     (Response 200 [(''message'', JStr ''Login successful''),
                    (''user'', JObj (userWithoutPassword example_user)),
                    (''token'', JStr ''tok'')], auth_db)"
    using r [of 0 auth_db, THEN conjunct1] by (simp only: e)
  have b: "\<exists>decoded. jwt_verify (with_tokens toy_services toy_enc toy_dec ''s3'' 2000) ''tok''
        = Inr decoded \<and>
      fld decoded ''id'' = JStr ''u1'' \<and> fld decoded ''email'' = JStr ''ann'' \<and>
      fld decoded ''name'' = JStr ''Ann''"
    using r [of 2000 auth_db, THEN conjunct2, THEN conjunct1] by (simp add: e u)
  have c: "me (with_tokens toy_services toy_enc toy_dec ''s3'' 605800) auth_db
      (Some ''Bearer tok'') =
     Response 401 [(''success'', JBool False), (''error'', JStr ''Token expired''),
                   (''details'', JStr ''Please login again'')]"
    using r [of 605800 auth_db, THEN conjunct2, THEN conjunct2] by (simp add: e)
  show ?thesis by (intro conjI) (rule h1 h2 h3 h4 h5 a b c)+
qed

section \<open>No response exposes a password hash\<close>

lemma has_prop_project: "has_prop (project cols r) k = (k \<in> set cols \<and> has_prop r k)"
  by (auto simp: has_prop_def project_def)

lemma has_prop_delete: "\<not> has_prop (AList.delete k ob) k"
  by (simp add: has_prop_def delete_notin_dom)

lemma has_prop_update: "has_prop (AList.update k v ob) k' = (k' = k \<or> has_prop ob k')"
  by (auto simp: has_prop_def dom_update)

lemma safe_single_project:
  assumes "''password_hash'' \<notin> set cols"
  shows "safe_reply (single (map (\<lambda>r. project cols (f r)) rs))"
proof (cases "\<exists>r. rs = [r]")
  case True
  then obtain r where "rs = [r]" ..
  with assms show ?thesis by (simp add: safe_reply_def single_def has_prop_project)
next
  case False
  then have "\<not> (\<exists>u. map (\<lambda>r. project cols (f r)) rs = [u])" by (cases rs) auto
  with single_cases [of "map (\<lambda>r. project cols (f r)) rs"]
  have "single (map (\<lambda>r. project cols (f r)) rs) = (None, Some ''PGRST116'')"
    by (elim disjE) simp_all
  then show ?thesis by (simp add: safe_reply_def)
qed

lemma safe_single_project_id:
  "''password_hash'' \<notin> set cols \<Longrightarrow> safe_reply (single (map (project cols) rs))"
  using safe_single_project [of cols "\<lambda>r. r" rs] by simp

lemma has_prop_Nil: "\<not> has_prop [] k"
  by (simp add: has_prop_def)

lemma has_prop_Cons: "has_prop ((k, v) # ob) k' = (k = k' \<or> has_prop ob k')"
  by (auto simp: has_prop_def)

lemma exposes_Response:
  "exposes_password_hash (Response code kvs) =
     (has_prop kvs ''password_hash'' \<or>
      (\<exists>(k, v) \<in> set kvs. case v of JObj ob \<Rightarrow> has_prop ob ''password_hash'' | _ \<Rightarrow> False))"
  by (simp add: exposes_password_hash_def)

lemma failure_safe: "\<not> exposes_password_hash (failure code msg)"
  by (simp add: exposes_password_hash_def failure_def has_prop_def)

lemma plain_error_safe: "\<not> exposes_password_hash (plain_error code msg)"
  by (simp add: exposes_password_hash_def plain_error_def has_prop_def)

lemma issue_response_safe: "\<not> exposes_password_hash (issue_response sv code msg user)"
  by (simp add: issue_response_def plain_error_safe split: sum.split)
    (simp add: exposes_Response userWithoutPassword_def has_prop_delete
      has_prop_Cons has_prop_Nil)

lemma register_safe: "\<not> exposes_password_hash (fst (register sv d new_id now body))"
  by (simp add: register_def plain_error_safe issue_response_safe insert_row_def Let_def
      split: prod.split option.split sum.split)

lemma login_safe: "\<not> exposes_password_hash (fst (login sv d body))"
  by (simp add: login_def plain_error_safe issue_response_safe
      split: prod.split option.split sum.split)

lemma me_caught_safe: "\<not> exposes_password_hash (me_caught sv e)"
  by (simp add: me_caught_def exposes_Response has_prop_Cons has_prop_Nil defined_props_def)

lemma user_response_safe:
  assumes "safe_reply rp"
  shows "\<not> exposes_password_hash
     (case rp of
        (_, Some e) \<Rightarrow> failure c1 m1
      | (None, None) \<Rightarrow> failure c2 m2
      | (Some user, None) \<Rightarrow> Response 200 [(''success'', JBool True), (''user'', JObj user)])"
proof -
  obtain a b where rp: "rp = (a, b)" by (cases rp)
  show ?thesis
  proof (cases a)
    case None
    with rp show ?thesis by (cases b) (simp_all add: failure_safe)
  next
    case (Some user)
    with assms rp have "\<not> has_prop user ''password_hash''" by (simp add: safe_reply_def)
    with rp Some show ?thesis
      by (cases b) (simp_all add: failure_safe exposes_Response has_prop_Cons has_prop_Nil)
  qed
qed

lemma me_safe: "\<not> exposes_password_hash (me sv d authorization)"
proof -
  have cols: "''password_hash'' \<notin> set me_columns" by (simp add: me_columns_def)
  show ?thesis
    unfolding me_def
    by (simp add: failure_safe me_caught_safe
        user_response_safe [OF safe_single_project_id [OF cols]]
        split: option.split sum.split)
qed

lemma profile_user_safe: "safe_reply (profile_user d userId)"
  unfolding profile_user_def
  by (rule safe_single_project_id) (simp add: profile_columns_def)

lemma get_profile_safe: "\<not> exposes_password_hash (get_profile sv d userId)"
proof -
  obtain a b where rp: "profile_user d (JStr userId) = (a, b)"
    by (cases "profile_user d (JStr userId)")
  from profile_user_safe [of d "JStr userId"] rp show ?thesis
    by (cases a; cases b)
      (simp_all add: get_profile_def safe_reply_def failure_safe exposes_Response has_prop_Cons
        has_prop_Nil has_prop_update)
qed

lemma get_current_profile_safe:
  "\<not> exposes_password_hash (get_current_profile sv d uid sharedKg helpedCount savedCO2)"
proof -
  obtain a b where rp: "profile_user d uid = (a, b)" by (cases "profile_user d uid")
  from profile_user_safe [of d uid] rp show ?thesis
    by (cases a; cases b)
      (simp_all add: get_current_profile_def safe_reply_def failure_safe exposes_Response
        has_prop_Cons has_prop_Nil has_prop_update)
qed

lemma update_profile_safe: "\<not> exposes_password_hash (fst (update_profile d uid now body))"
proof -
  let ?rp = "single (map (\<lambda>r. project profile_columns
      (apply_update (profile_updateData body now) r)) (filter (sql_eq ''id'' uid) (users d)))"
  have s: "safe_reply ?rp" by (rule safe_single_project) (simp add: profile_columns_def)
  obtain a b where rp: "?rp = (a, b)" by (cases ?rp)
  from s rp show ?thesis
    by (cases a; cases b)
      (simp_all add: update_profile_def update_select_def safe_reply_def failure_safe
        exposes_Response has_prop_Cons has_prop_Nil)
qed

lemma upload_image_safe: "\<not> exposes_password_hash (fst (upload_image d uid now file))"
proof (cases "file")
  case None
  then show ?thesis by (simp add: upload_image_def failure_safe)
next
  case (Some imageUrl)
  let ?rp = "single (map (\<lambda>r. project image_columns
      (apply_update [(''profile_image_url'', JStr imageUrl), (''updated_at'', JStr now)] r))
      (filter (sql_eq ''id'' uid) (users d)))"
  have s: "safe_reply ?rp" by (rule safe_single_project) (simp add: image_columns_def)
  obtain a b where rp: "?rp = (a, b)" by (cases ?rp)
  from s rp Some show ?thesis
    by (cases a; cases b)
      (simp_all add: upload_image_def update_select_def safe_reply_def failure_safe
        exposes_Response has_prop_Cons has_prop_Nil)
qed

lemma delete_image_safe: "\<not> exposes_password_hash (fst (delete_image d uid now))"
proof -
  let ?rp = "single (map (\<lambda>r. project image_columns
      (apply_update [(''profile_image_url'', JNull), (''updated_at'', JStr now)] r))
      (filter (sql_eq ''id'' uid) (users d)))"
  have s: "safe_reply ?rp" by (rule safe_single_project) (simp add: image_columns_def)
  obtain a b where rp: "?rp = (a, b)" by (cases ?rp)
  from s rp show ?thesis
    by (cases a; cases b)
      (simp_all add: delete_image_def update_select_def safe_reply_def failure_safe
        exposes_Response has_prop_Cons has_prop_Nil)
qed

text \<open>
  Claim C1.  Whatever the request and whatever the rows of the store hold, no response of
  register, login, \<open>/me\<close>, the two profile fetches, the profile update, the image upload
  and the image removal has the property \<open>password_hash\<close>, in its body or in the user or
  profile object of its body.  Register and login remove the property from the row they
  return; the other handlers select columns that do not include it.
\<close>

theorem responses_never_expose_password_hash:
  "\<not> exposes_password_hash (fst (register sv d new_id now body)) \<and>
   \<not> exposes_password_hash (fst (login sv d body)) \<and>
   \<not> exposes_password_hash (me sv d authorization) \<and>
   \<not> exposes_password_hash (get_profile sv d userId) \<and>
   \<not> exposes_password_hash (get_current_profile sv d uid sharedKg helpedCount savedCO2) \<and>
   \<not> exposes_password_hash (fst (update_profile d uid now body)) \<and>
   \<not> exposes_password_hash (fst (upload_image d uid now file)) \<and>
   \<not> exposes_password_hash (fst (delete_image d uid now))"
  by (intro conjI)
    (rule register_safe login_safe me_safe get_profile_safe get_current_profile_safe
      update_profile_safe upload_image_safe delete_image_safe)+

theorem responses_never_expose_password_hash_witness:
  "has_prop (hd (users auth_db)) ''password_hash'' \<and>
   status (fst (login toy_services auth_db ann_login_body)) = 200 \<and>
   \<not> exposes_password_hash (fst (login toy_services auth_db ann_login_body)) \<and>
   status (me toy_services auth_db (Some ''Bearer good'')) = 200 \<and>
   \<not> exposes_password_hash (me toy_services auth_db (Some ''Bearer good'')) \<and>
   status (get_profile toy_services auth_db ''u1'') = 200 \<and>
   \<not> exposes_password_hash (get_profile toy_services auth_db ''u1'')"
proof -
  note t = responses_never_expose_password_hash [of toy_services auth_db _ _ ann_login_body
      "Some ''Bearer good''" "''u1''"]
  have a: "has_prop (hd (users auth_db)) ''password_hash''"
    by (simp add: auth_db_def example_user_def has_prop_def)
  have b: "status (fst (login toy_services auth_db ann_login_body)) = 200"
    by code_simp
  have c: "status (me toy_services auth_db (Some ''Bearer good'')) = 200"
    by code_simp
  have e: "status (get_profile toy_services auth_db ''u1'') = 200"
    by code_simp
  from t have l: "\<not> exposes_password_hash (fst (login toy_services auth_db ann_login_body))"
    and m: "\<not> exposes_password_hash (me toy_services auth_db (Some ''Bearer good''))"
    and p: "\<not> exposes_password_hash (get_profile toy_services auth_db ''u1'')"
    by blast+
  show ?thesis by (intro conjI) (rule a b l c m e p)+
qed

end
